theory Spec2Isabelle
  imports Main "HOL-Library.Monad_Syntax" "HOL-Library.While_Combinator"
begin

section \<open>Data model\<close>

text \<open>
  Go's \<open>int\<close> is modelled as \<open>int\<close>. In combat and in the use of an item, where the
  properties range over every value of the fields, the wrap-around of the 64-bit
  arithmetic is written out with \<open>wrap64\<close>; generation, level-up and the arrival on a
  tile are read on the values of the game, which start from small constants and move by
  small steps, far from the 64-bit range. A \<open>rune\<close> is only stored and compared, so it
  is the integer code of its character. A panic of the Go runtime (index out of range,
  \<open>rand.Intn\<close> of a non-positive bound, a nil pointer) is the value \<open>None\<close>.
\<close>

text \<open>The value a 64-bit signed result has in Go: reduced into \<open>-2^63 .. 2^63 - 1\<close>.\<close>

definition wrap64 :: "int \<Rightarrow> int" where
  "wrap64 k = (k + 9223372036854775808) mod 18446744073709551616 - 9223372036854775808"

type_synonym rune = int

text \<open>\<open>type TileType rune\<close> with its six constants, by character code.\<close>

type_synonym TileType = rune

definition Floor :: TileType where "Floor = 46"       \<comment> \<open>\<open>'.'\<close>\<close>
definition Wall :: TileType where "Wall = 35"         \<comment> \<open>\<open>'#'\<close>\<close>
definition Door :: TileType where "Door = 43"         \<comment> \<open>\<open>'+'\<close>\<close>
definition Treasure :: TileType where "Treasure = 36" \<comment> \<open>\<open>'$'\<close>\<close>
definition Trap :: TileType where "Trap = 94"         \<comment> \<open>\<open>'^'\<close>\<close>
definition StairsDown :: TileType where "StairsDown = 62" \<comment> \<open>\<open>'>'\<close>\<close>

datatype ItemType = ItemGold | ItemPotion | ItemWeapon | ItemArmor | ItemTreasure | ItemKey

record Item =
  X :: int
  Y :: int
  Type :: ItemType
  Name :: string
  Description :: string
  Value :: int
  Symbol :: rune
  Collected :: bool

record Room =
  X :: int
  Y :: int
  Width :: int
  Height :: int

record Enemy =
  X :: int
  Y :: int
  Health :: int
  Symbol :: rune
  Name :: string
  Damage :: int
  Hostile :: bool

text \<open>
  \<open>Enemies\<close> is a slice of pointers in the source. Each pointer is created once and
  appended once, so an enemy is identified by its index in the list, and a write
  through the pointer is an update of the list at that index.
\<close>

record Dungeon =
  Width :: int
  Height :: int
  Grid :: "rune list list"
  Rooms :: "Room list"
  Enemies :: "Enemy list"
  Items :: "Item list"
  Level :: int

record Player =
  X :: int
  Y :: int
  Health :: int
  MaxHealth :: int
  Attack :: int
  Defense :: int
  Gold :: int
  Level :: int
  Exp :: int
  Inventory :: "Item list"

section \<open>The process-wide state: random source and console\<close>

text \<open>
  The calls of \<open>fmt.Println\<close> and \<open>fmt.Printf\<close> are recorded with their format string
  and arguments. The random source is a tape of raw draws; \<open>rand.Intn n\<close> reduces the
  next draw modulo \<open>n\<close> and panics for \<open>n \<le> 0\<close>. A tape that has run out goes on with
  zeros, so that every finite run of the program is the reading of some tape.
\<close>

datatype arg = S string | D int

datatype msg = Println string | Printf string "arg list"

record world =
  rand :: "nat list"
  out :: "msg list"

definition Print :: "msg \<Rightarrow> world \<Rightarrow> world" where
  "Print m w = w\<lparr>out := out w @ [m]\<rparr>"

definition Intn :: "int \<Rightarrow> world \<Rightarrow> (int \<times> world) option" where
  "Intn n w =
     (if n \<le> 0 then None
      else (case rand w of
              [] \<Rightarrow> Some (0, w)
            | r # rs \<Rightarrow> Some (int r mod n, w\<lparr>rand := rs\<rparr>)))"

text \<open>Go's \<open>/\<close> on integers truncates towards zero.\<close>

definition quot :: "int \<Rightarrow> int \<Rightarrow> int" where
  "quot a b = sgn a * sgn b * (\<bar>a\<bar> div \<bar>b\<bar>)"

section \<open>Grid access\<close>

text \<open>
  \<open>xs[i]\<close> with the bounds check of the runtime, and \<open>d.Grid[y][x]\<close> as a read and as
  a write.
\<close>

definition index :: "'a list \<Rightarrow> int \<Rightarrow> 'a option" where
  "index xs i = (if 0 \<le> i \<and> i < int (length xs) then Some (xs ! nat i) else None)"

definition gridGet :: "Dungeon \<Rightarrow> int \<Rightarrow> int \<Rightarrow> rune option" where
  "gridGet d x y = do { row \<leftarrow> index (Grid d) y; index row x }"

definition gridSet :: "Dungeon \<Rightarrow> int \<Rightarrow> int \<Rightarrow> rune \<Rightarrow> Dungeon option" where
  "gridSet d x y v = do {
     row \<leftarrow> index (Grid d) y;
     _ \<leftarrow> index row x;
     Some (d\<lparr>Grid := (Grid d)[nat y := row[nat x := v]]\<rparr>)
   }"

section \<open>Dungeon queries\<close>

definition IsWalkable :: "Dungeon \<Rightarrow> int \<Rightarrow> int \<Rightarrow> bool option" where
  "IsWalkable d x y =
     (if x < 0 \<or> y < 0 \<or> x \<ge> Dungeon.Width d \<or> y \<ge> Dungeon.Height d then Some False
      else do {
        tile \<leftarrow> gridGet d x y;
        if tile = Floor \<or> tile = Door \<or> tile = Treasure \<or> tile = Trap \<or> tile = StairsDown
        then Some True
        else Some False
      })"

definition GetTileAt :: "Dungeon \<Rightarrow> int \<Rightarrow> int \<Rightarrow> TileType option" where
  "GetTileAt d x y =
     (if x < 0 \<or> y < 0 \<or> x \<ge> Dungeon.Width d \<or> y \<ge> Dungeon.Height d then Some Wall
      else gridGet d x y)"

text \<open>The first living enemy at the position, as its index; \<open>None\<close> is \<open>nil\<close>.\<close>

fun GetEnemyAt_from :: "nat \<Rightarrow> Enemy list \<Rightarrow> int \<Rightarrow> int \<Rightarrow> nat option" where
  "GetEnemyAt_from i [] x y = None"
| "GetEnemyAt_from i (enemy # es) x y =
     (if Enemy.X enemy = x \<and> Enemy.Y enemy = y \<and> Enemy.Health enemy > 0 then Some i
      else GetEnemyAt_from (i + 1) es x y)"

definition GetEnemyAt :: "Dungeon \<Rightarrow> int \<Rightarrow> int \<Rightarrow> nat option" where
  "GetEnemyAt d x y = GetEnemyAt_from 0 (Enemies d) x y"



text \<open>
  \<open>RemoveEnemy\<close> removes the first entry that is the given pointer: the entry at the
  pointer's index, when the index is in the list.
\<close>

definition RemoveEnemy :: "nat \<Rightarrow> Dungeon \<Rightarrow> Dungeon" where
  "RemoveEnemy i d =
     (if i < length (Enemies d)
      then d\<lparr>Enemies := take i (Enemies d) @ drop (i + 1) (Enemies d)\<rparr>
      else d)"

section \<open>Player actions\<close>

definition NewPlayer :: "int \<Rightarrow> int \<Rightarrow> Player" where
  "NewPlayer x y =
     \<lparr>Player.X = x, Player.Y = y, Player.Health = 20, MaxHealth = 20, Attack = 3,
      Defense = 1, Gold = 0, Player.Level = 1, Exp = 0, Inventory = []\<rparr>"

function CheckLevelUp :: "Player \<Rightarrow> world \<Rightarrow> Player \<times> world" where
  "CheckLevelUp p w =
     (let expNeeded = 100 * Player.Level p in
      if Exp p \<ge> expNeeded then
        (let p1 = p\<lparr>Player.Level := Player.Level p + 1\<rparr>;
             p2 = p1\<lparr>Exp := Exp p1 - expNeeded\<rparr>;
             p3 = p2\<lparr>MaxHealth := MaxHealth p2 + 5\<rparr>;
             p4 = p3\<lparr>Player.Health := MaxHealth p3\<rparr>;
             p5 = p4\<lparr>Attack := Attack p4 + 1\<rparr>;
             w1 = Print (Printf ''Level up! You are now level %d.\<newline>'' [D (Player.Level p5)]) w;
             w2 = Print (Printf
                    ''Your health increased to %d and your attack increased to %d.\<newline>''
                    [D (MaxHealth p5), D (Attack p5)]) w1
         in CheckLevelUp p5 w2)
      else (p, w))"
  by pat_completeness auto
termination
  by (relation "measures [\<lambda>(p, w). nat (1 - Player.Level p), \<lambda>(p, w). nat (Exp p)]") auto

declare CheckLevelUp.simps [simp del]



text \<open>\<open>enemy\<close> is a pointer to an entry of \<open>d.Enemies\<close>: the index \<open>i\<close>; a nil pointer panics.\<close>

definition AttackEnemy :: "Player \<Rightarrow> nat \<Rightarrow> Dungeon \<Rightarrow> world \<Rightarrow> (Player \<times> Dungeon \<times> world) option" where
  "AttackEnemy p i d w =
     (if i \<ge> length (Enemies d) then None
      else
        (let damage = Attack p;
             enemy0 = Enemies d ! i;
             enemy = enemy0\<lparr>Enemy.Health := wrap64 (Enemy.Health enemy0 - damage)\<rparr>;
             d1 = d\<lparr>Enemies := (Enemies d)[i := enemy]\<rparr>;
             w1 = Print (Printf ''You attack the %s for %d damage!\<newline>''
                           [S (Enemy.Name enemy), D damage]) w
         in if Enemy.Health enemy \<le> 0 then
              (let w2 = Print (Printf ''You defeated the %s!\<newline>'' [S (Enemy.Name enemy)]) w1;
                   expGain = wrap64 (5 + wrap64 (Damage enemy * 2));
                   p1 = p\<lparr>Exp := wrap64 (Exp p + expGain)\<rparr>;
                   w3 = Print (Printf ''You gained %d experience points.\<newline>'' [D expGain]) w2;
                   (p2, w4) = CheckLevelUp p1 w3;
                   d2 = RemoveEnemy i d1
               in do {
                 (r, w5) \<leftarrow> Intn 2 w4;
                 if r = 0 then do {
                   (g, w6) \<leftarrow> Intn 10 w5;
                   let goldAmount = 1 + g;
                   let p3 = p2\<lparr>Gold := wrap64 (Gold p2 + goldAmount)\<rparr>;
                   Some (p3, d2, Print (Printf ''You found %d gold!\<newline>'' [D goldAmount]) w6)
                 } else Some (p2, d2, w5)
               })
            else
              (let enemyDamage = wrap64 (Damage enemy - Defense p);
                   enemyDamage = (if enemyDamage < 1 then 1 else enemyDamage);
                   p1 = p\<lparr>Player.Health := wrap64 (Player.Health p - enemyDamage)\<rparr>;
                   w2 = Print (Printf ''The %s attacks you for %d damage!\<newline>''
                                 [S (Enemy.Name enemy), D enemyDamage]) w1
               in Some (p1, d1,
                        if Player.Health p1 \<le> 0
                        then Print (Println ''You have been defeated! Game over.'') w2
                        else w2))))"


definition UseItem :: "Player \<Rightarrow> int \<Rightarrow> world \<Rightarrow> Player \<times> world" where
  "UseItem p itemIndex w =
     (if itemIndex < 0 \<or> itemIndex \<ge> int (length (Inventory p))
      then (p, Print (Println ''Invalid item index.'') w)
      else
        (let item = Inventory p ! nat itemIndex
         in case Type item of
              ItemPotion \<Rightarrow>
                (let healAmount = Value item;
                     p1 = p\<lparr>Player.Health := wrap64 (Player.Health p + healAmount)\<rparr>;
                     p2 = (if Player.Health p1 > MaxHealth p1
                           then p1\<lparr>Player.Health := MaxHealth p1\<rparr> else p1);
                     w1 = Print (Printf ''You drink the %s and heal for %d health points.\<newline>''
                                   [S (Item.Name item), D healAmount]) w
                 in (p2\<lparr>Inventory := take (nat itemIndex) (Inventory p2)
                                       @ drop (nat itemIndex + 1) (Inventory p2)\<rparr>, w1))
            | ItemWeapon \<Rightarrow>
                (let p1 = p\<lparr>Attack := Value item\<rparr>
                 in (p1, Print (Printf ''You equip the %s. Your attack is now %d.\<newline>''
                                  [S (Item.Name item), D (Attack p1)]) w))
            | ItemArmor \<Rightarrow>
                (let p1 = p\<lparr>Defense := Value item\<rparr>
                 in (p1, Print (Printf ''You equip the %s. Your defense is now %d.\<newline>''
                                  [S (Item.Name item), D (Defense p1)]) w))
            | _ \<Rightarrow> (p, w)))"

section \<open>Loops\<close>

text \<open>
  \<open>for i := lo; i < hi; i++ { body }\<close> and \<open>for _, x := range xs { body }\<close>, for bodies
  without \<open>break\<close>; a panic in the body ends the loop.
\<close>

function forLoop :: "int \<Rightarrow> int \<Rightarrow> (int \<Rightarrow> 's \<Rightarrow> 's option) \<Rightarrow> 's \<Rightarrow> 's option" where
  "forLoop i n body s =
     (if i < n then (case body i s of None \<Rightarrow> None | Some s' \<Rightarrow> forLoop (i + 1) n body s')
      else Some s)"
  by pat_completeness auto
termination
  by (relation "measure (\<lambda>(i, n, body, s). nat (n - i))") auto

declare forLoop.simps [simp del]

primrec forEach :: "'a list \<Rightarrow> ('a \<Rightarrow> 's \<Rightarrow> 's option) \<Rightarrow> 's \<Rightarrow> 's option" where
  "forEach [] body s = Some s"
| "forEach (x # xs) body s = (case body x s of None \<Rightarrow> None | Some s' \<Rightarrow> forEach xs body s')"

section \<open>Room generation\<close>

definition roomsOverlap :: "Room \<Rightarrow> Room \<Rightarrow> bool" where
  "roomsOverlap r1 r2 \<longleftrightarrow>
     Room.X r1 - 1 \<le> Room.X r2 + Room.Width r2 \<and> Room.X r1 + Room.Width r1 + 1 \<ge> Room.X r2 \<and>
     Room.Y r1 - 1 \<le> Room.Y r2 + Room.Height r2 \<and> Room.Y r1 + Room.Height r1 + 1 \<ge> Room.Y r2"

definition carveRoom :: "Room \<Rightarrow> Dungeon \<Rightarrow> Dungeon option" where
  "carveRoom room d =
     forLoop (Room.Y room) (Room.Y room + Room.Height room)
       (\<lambda>y. forLoop (Room.X room) (Room.X room + Room.Width room)
          (\<lambda>x d. gridSet d x y Floor)) d"

text \<open>
  One pass of the placement loop of \<open>generateRooms\<close>. The inner loop that sets
  \<open>overlap\<close> and breaks is the test whether some placed room overlaps the new one.
\<close>

fun generateRooms_try :: "int \<Rightarrow> int \<Rightarrow> Dungeon \<times> world \<Rightarrow> (Dungeon \<times> world) option" where
  "generateRooms_try minSize maxSize (d, w) = do {
     (rw, w1) \<leftarrow> Intn (maxSize - minSize + 1) w;
     let width = minSize + rw;
     (rh, w2) \<leftarrow> Intn (maxSize - minSize + 1) w1;
     let height = minSize + rh;
     (rx, w3) \<leftarrow> Intn (Dungeon.Width d - width - 2) w2;
     let x = 1 + rx;
     (ry, w4) \<leftarrow> Intn (Dungeon.Height d - height - 2) w3;
     let y = 1 + ry;
     let newRoom = \<lparr>Room.X = x, Room.Y = y, Room.Width = width, Room.Height = height\<rparr>;
     let overlap = list_ex (\<lambda>room. roomsOverlap newRoom room) (Rooms d);
     if \<not> overlap then do {
       d1 \<leftarrow> carveRoom newRoom d;
       Some (d1\<lparr>Rooms := Rooms d1 @ [newRoom]\<rparr>, w4)
     } else Some (d, w4)
   }"

definition generateRooms :: "int \<Rightarrow> int \<Rightarrow> Dungeon \<Rightarrow> world \<Rightarrow> (Dungeon \<times> world) option" where
  "generateRooms minRooms maxRooms d w = do {
     (r, w1) \<leftarrow> Intn (maxRooms - minRooms + 1) w;
     let numRooms = minRooms + r;
     let minSize = 4;
     let maxSize = 10;
     (d1, w2) \<leftarrow> forLoop 0 numRooms (\<lambda>i. generateRooms_try minSize maxSize) (d, w1);
     if length (Rooms d1) = 0 then do {
       let room = \<lparr>Room.X = quot (Dungeon.Width d1) 4, Room.Y = quot (Dungeon.Height d1) 4,
                   Room.Width = quot (Dungeon.Width d1) 2,
                   Room.Height = quot (Dungeon.Height d1) 2\<rparr>;
       d2 \<leftarrow> carveRoom room d1;
       Some (d2\<lparr>Rooms := Rooms d2 @ [room]\<rparr>, w2)
     } else Some (d1, w2)
   }"

section \<open>Corridors\<close>

definition createHorizontalCorridor :: "int \<Rightarrow> int \<Rightarrow> int \<Rightarrow> Dungeon \<Rightarrow> Dungeon option" where
  "createHorizontalCorridor x1 x2 y d =
     (let (x1, x2) = (if x1 > x2 then (x2, x1) else (x1, x2))
      in forLoop x1 (x2 + 1)
           (\<lambda>x d. if y \<ge> 0 \<and> y < Dungeon.Height d \<and> x \<ge> 0 \<and> x < Dungeon.Width d
                  then gridSet d x y Floor else Some d) d)"

definition createVerticalCorridor :: "int \<Rightarrow> int \<Rightarrow> int \<Rightarrow> Dungeon \<Rightarrow> Dungeon option" where
  "createVerticalCorridor y1 y2 x d =
     (let (y1, y2) = (if y1 > y2 then (y2, y1) else (y1, y2))
      in forLoop y1 (y2 + 1)
           (\<lambda>y d. if y \<ge> 0 \<and> y < Dungeon.Height d \<and> x \<ge> 0 \<and> x < Dungeon.Width d
                  then gridSet d x y Floor else Some d) d)"

fun connectRooms_pair :: "int \<Rightarrow> Dungeon \<times> world \<Rightarrow> (Dungeon \<times> world) option" where
  "connectRooms_pair i (d, w) = do {
     ri \<leftarrow> index (Rooms d) i;
     rj \<leftarrow> index (Rooms d) (i + 1);
     let x1 = Room.X ri + quot (Room.Width ri) 2;
     let y1 = Room.Y ri + quot (Room.Height ri) 2;
     let x2 = Room.X rj + quot (Room.Width rj) 2;
     let y2 = Room.Y rj + quot (Room.Height rj) 2;
     (r, w1) \<leftarrow> Intn 2 w;
     if r = 0 then do {
       d1 \<leftarrow> createHorizontalCorridor x1 x2 y1 d;
       d2 \<leftarrow> createVerticalCorridor y1 y2 x2 d1;
       Some (d2, w1)
     } else do {
       d1 \<leftarrow> createVerticalCorridor y1 y2 x1 d;
       d2 \<leftarrow> createHorizontalCorridor x1 x2 y2 d1;
       Some (d2, w1)
     }
   }"

text \<open>The loop does not change \<open>d.Rooms\<close>, so its bound is the length at entry.\<close>

definition connectRooms :: "Dungeon \<Rightarrow> world \<Rightarrow> (Dungeon \<times> world) option" where
  "connectRooms d w =
     (if length (Rooms d) \<le> 1 then Some (d, w)
      else forLoop 0 (int (length (Rooms d)) - 1) connectRooms_pair (d, w))"

section \<open>Features\<close>

text \<open>\<open>&&\<close> and \<open>||\<close> on operands that may panic: the right operand is read only when needed.\<close>

definition andAlso :: "bool option \<Rightarrow> bool option \<Rightarrow> bool option" where
  "andAlso a b = (case a of None \<Rightarrow> None | Some True \<Rightarrow> b | Some False \<Rightarrow> Some False)"

definition orElse :: "bool option \<Rightarrow> bool option \<Rightarrow> bool option" where
  "orElse a b = (case a of None \<Rightarrow> None | Some True \<Rightarrow> Some True | Some False \<Rightarrow> b)"

definition isWallAt :: "Dungeon \<Rightarrow> int \<Rightarrow> int \<Rightarrow> bool option" where
  "isWallAt d x y = map_option (\<lambda>t. t = Wall) (gridGet d x y)"

fun addDoors_cell :: "int \<Rightarrow> int \<Rightarrow> Dungeon \<times> world \<Rightarrow> (Dungeon \<times> world) option" where
  "addDoors_cell y x (d, w) = do {
     c \<leftarrow> gridGet d x y;
     if c = Floor then do {
       pinch \<leftarrow> orElse (andAlso (isWallAt d x (y - 1)) (isWallAt d x (y + 1)))
                       (andAlso (isWallAt d (x - 1) y) (isWallAt d (x + 1) y));
       if pinch then do {
         (r, w1) \<leftarrow> Intn 100 w;
         if r < 10 then do { d1 \<leftarrow> gridSet d x y Door; Some (d1, w1) }
         else Some (d, w1)
       } else Some (d, w)
     } else Some (d, w)
   }"

text \<open>\<open>d.Height\<close> and \<open>d.Width\<close> never change, so the loop bounds are read at entry.\<close>

definition addDoors :: "Dungeon \<Rightarrow> world \<Rightarrow> (Dungeon \<times> world) option" where
  "addDoors d w =
     forLoop 1 (Dungeon.Height d - 1)
       (\<lambda>y. forLoop 1 (Dungeon.Width d - 1) (\<lambda>x. addDoors_cell y x)) (d, w)"

fun addTreasures_room :: "Room \<Rightarrow> Dungeon \<times> world \<Rightarrow> (Dungeon \<times> world) option" where
  "addTreasures_room room (d, w) = do {
     (r, w1) \<leftarrow> Intn 100 w;
     if r < 40 then do {
       (rx, w2) \<leftarrow> Intn (Room.Width room) w1;
       let treasureX = Room.X room + rx;
       (ry, w3) \<leftarrow> Intn (Room.Height room) w2;
       let treasureY = Room.Y room + ry;
       d1 \<leftarrow> gridSet d treasureX treasureY Treasure;
       (v, w4) \<leftarrow> Intn 90 w3;
       Some (d1\<lparr>Items := Items d1 @
               [\<lparr>Item.X = treasureX, Item.Y = treasureY, Type = ItemTreasure, Item.Name = ''Gold'',
                 Description = [], Value = 10 + v, Item.Symbol = 36, Collected = False\<rparr>]\<rparr>, w4)
     } else Some (d, w1)
   }"

definition addTreasures :: "Dungeon \<Rightarrow> world \<Rightarrow> (Dungeon \<times> world) option" where
  "addTreasures d w = forEach (Rooms d) addTreasures_room (d, w)"

text \<open>The attempts loop of \<open>addTraps\<close>, which breaks at the first trap placed.\<close>

function addTraps_attempts :: "int \<Rightarrow> Dungeon \<times> world \<Rightarrow> (Dungeon \<times> world) option" where
  "addTraps_attempts attempts (d, w) =
     (if attempts < 50 then do {
        (rx, w1) \<leftarrow> Intn (Dungeon.Width d - 2) w;
        let x = 1 + rx;
        (ry, w2) \<leftarrow> Intn (Dungeon.Height d - 2) w1;
        let y = 1 + ry;
        c \<leftarrow> gridGet d x y;
        if c = Floor then do { d1 \<leftarrow> gridSet d x y Trap; Some (d1, w2) }
        else addTraps_attempts (attempts + 1) (d, w2)
      } else Some (d, w))"
  by pat_completeness auto
termination
  by (relation "measure (\<lambda>(attempts, s). nat (50 - attempts))") auto

declare addTraps_attempts.simps [simp del]

definition addTraps :: "Dungeon \<Rightarrow> world \<Rightarrow> (Dungeon \<times> world) option" where
  "addTraps d w = do {
     (r, w1) \<leftarrow> Intn 4 w;
     let numTraps = 2 + r;
     forLoop 0 numTraps (\<lambda>i. addTraps_attempts 0) (d, w1)
   }"

definition addFeatures :: "Dungeon \<Rightarrow> world \<Rightarrow> (Dungeon \<times> world) option" where
  "addFeatures d w = do {
     (d1, w1) \<leftarrow> addDoors d w;
     (d2, w2) \<leftarrow> addTreasures d1 w1;
     (d3, w3) \<leftarrow> addTraps d2 w2;
     if length (Rooms d3) > 0 then do {
       lastRoom \<leftarrow> index (Rooms d3) (int (length (Rooms d3)) - 1);
       let stairsX = Room.X lastRoom + quot (Room.Width lastRoom) 2;
       let stairsY = Room.Y lastRoom + quot (Room.Height lastRoom) 2;
       d4 \<leftarrow> gridSet d3 stairsX stairsY StairsDown;
       Some (d4, w3)
     } else Some (d3, w3)
   }"

section \<open>Enemies\<close>

text \<open>The table of \<open>spawnEnemies\<close>: name, symbol, health, damage.\<close>

definition enemyTypes :: "(string \<times> rune \<times> int \<times> int) list" where
  "enemyTypes =
     [(''Goblin'', 103, 3, 1),
      (''Orc'', 111, 5, 2),
      (''Troll'', 84, 8, 3),
      (''Rat'', 114, 1, 1),
      (''Skeleton'', 115, 4, 2)]"

definition newEnemy :: "int \<Rightarrow> int \<Rightarrow> string \<times> rune \<times> int \<times> int \<Rightarrow> Enemy" where
  "newEnemy x y enemyType =
     (case enemyType of (name, symbol, health, damage) \<Rightarrow>
        \<lparr>Enemy.X = x, Enemy.Y = y, Enemy.Health = health, Enemy.Symbol = symbol,
         Enemy.Name = name, Damage = damage, Hostile = True\<rparr>)"

function spawnEnemies_loop :: "int \<Rightarrow> int \<Rightarrow> Dungeon \<times> world \<Rightarrow> (Dungeon \<times> world) option" where
  "spawnEnemies_loop i numEnemies (d, w) =
     (if i < numEnemies then
        (if length (Rooms d) \<le> 1 then Some (d, w)
         else do {
           (ri, w1) \<leftarrow> Intn (int (length (Rooms d)) - 1) w;
           let roomIndex = 1 + ri;
           room \<leftarrow> index (Rooms d) roomIndex;
           (rx, w2) \<leftarrow> Intn (Room.Width room) w1;
           let x = Room.X room + rx;
           (ry, w3) \<leftarrow> Intn (Room.Height room) w2;
           let y = Room.Y room + ry;
           (rt, w4) \<leftarrow> Intn (int (length enemyTypes)) w3;
           enemyType \<leftarrow> index enemyTypes rt;
           let enemy = newEnemy x y enemyType;
           spawnEnemies_loop (i + 1) numEnemies (d\<lparr>Enemies := Enemies d @ [enemy]\<rparr>, w4)
         })
      else Some (d, w))"
  by pat_completeness auto
termination
  by (relation "measure (\<lambda>(i, numEnemies, s). nat (numEnemies - i))") auto

declare spawnEnemies_loop.simps [simp del]

definition spawnEnemies :: "int \<Rightarrow> int \<Rightarrow> Dungeon \<Rightarrow> world \<Rightarrow> (Dungeon \<times> world) option" where
  "spawnEnemies minE maxE d w = do {
     (r, w1) \<leftarrow> Intn (maxE - minE + 1) w;
     let numEnemies = minE + r;
     spawnEnemies_loop 0 numEnemies (d, w1)
   }"

text \<open>The table of \<open>spawnEnemyNearPlayer\<close>, and the offsets it tries in order.\<close>

definition enemyTypesNear :: "(string \<times> rune \<times> int \<times> int) list" where
  "enemyTypesNear = [(''Goblin'', 103, 3, 1), (''Rat'', 114, 1, 1)]"

definition positions :: "(int \<times> int) list" where
  "positions = [(-1, -1), (0, -1), (1, -1), (-1, 0), (1, 0), (-1, 1), (0, 1), (1, 1)]"

fun spawnEnemyNearPlayer_from ::
  "(int \<times> int) list \<Rightarrow> Player \<Rightarrow> Dungeon \<Rightarrow> world \<Rightarrow> (Dungeon \<times> world) option" where
  "spawnEnemyNearPlayer_from [] player dungeon w = Some (dungeon, w)"
| "spawnEnemyNearPlayer_from (pos # rest) player dungeon w =
     (let x = Player.X player + fst pos; y = Player.Y player + snd pos
      in do {
        walkable \<leftarrow> IsWalkable dungeon x y;
        if walkable \<and> GetEnemyAt dungeon x y = None then do {
          (rt, w1) \<leftarrow> Intn (int (length enemyTypesNear)) w;
          enemyType \<leftarrow> index enemyTypesNear rt;
          let enemy = newEnemy x y enemyType;
          Some (dungeon\<lparr>Enemies := Enemies dungeon @ [enemy]\<rparr>,
                Print (Printf ''A %s appears!\<newline>'' [S (Enemy.Name enemy)]) w1)
        } else spawnEnemyNearPlayer_from rest player dungeon w
      })"

definition spawnEnemyNearPlayer :: "Player \<Rightarrow> Dungeon \<Rightarrow> world \<Rightarrow> (Dungeon \<times> world) option" where
  "spawnEnemyNearPlayer player dungeon w = spawnEnemyNearPlayer_from positions player dungeon w"

section \<open>A new level\<close>

text \<open>
  \<open>make\<close> panics on a negative length. \<open>rand.Seed\<close> restarts the source from the clock:
  the draws that follow are as unconstrained as before, so the same tape is read on.
\<close>

definition NewDungeon :: "int \<Rightarrow> int \<Rightarrow> world \<Rightarrow> (Dungeon \<times> world) option" where
  "NewDungeon w h wd =
     (if h < 0 \<or> (h > 0 \<and> w < 0) then None
      else do {
        let d = \<lparr>Dungeon.Width = w, Dungeon.Height = h,
                 Grid = replicate (nat h) (replicate (nat w) Wall),
                 Rooms = [], Enemies = [], Items = [], Dungeon.Level = 1\<rparr>;
        (d1, wd1) \<leftarrow> generateRooms 4 8 d wd;
        (d2, wd2) \<leftarrow> connectRooms d1 wd1;
        (d3, wd3) \<leftarrow> addFeatures d2 wd2;
        spawnEnemies 3 6 d3 wd3
      })"

text \<open>The command \<open>">"\<close> of the game loop.\<close>

definition descend :: "Player \<Rightarrow> Dungeon \<Rightarrow> world \<Rightarrow> (Player \<times> Dungeon \<times> world) option" where
  "descend player dungeon w = do {
     tile \<leftarrow> GetTileAt dungeon (Player.X player) (Player.Y player);
     if tile = StairsDown then do {
       (dungeon1, w1) \<leftarrow> NewDungeon 80 24 w;
       let dungeon2 = dungeon1\<lparr>Dungeon.Level := Dungeon.Level dungeon1 + 1\<rparr>;
       player1 \<leftarrow>
         (if length (Rooms dungeon2) > 0 then do {
            room \<leftarrow> index (Rooms dungeon2) 0;
            Some (player\<lparr>Player.X := Room.X room + quot (Room.Width room) 2,
                         Player.Y := Room.Y room + quot (Room.Height room) 2\<rparr>)
          } else Some (player\<lparr>Player.X := 1, Player.Y := 1\<rparr>));
       Some (player1, dungeon2,
             Print (Printf ''You descend to dungeon level %d...\<newline>''
                      [D (Dungeon.Level dungeon2)]) w1)
     } else Some (player, dungeon, Print (Println ''There are no stairs here.'') w)
   }"

section \<open>Properties stated by the specification\<close>

text \<open>
  The grid has \<open>Height\<close> rows of \<open>Width\<close> cells each: the shape \<open>NewDungeon\<close> builds and
  every later write keeps.
\<close>

definition wellFormed :: "Dungeon \<Rightarrow> bool" where
  "wellFormed d \<longleftrightarrow>
     int (length (Grid d)) = Dungeon.Height d \<and>
     list_all (\<lambda>row. int (length row) = Dungeon.Width d) (Grid d)"

text \<open>
  What a generation step may change: \<open>gridOnly d d'\<close> says that \<open>d'\<close> is \<open>d\<close> with
  some cells rewritten. A room lies within the grid; the cells of a room with one tile
  of padding on every side; rooms that pairwise do not overlap.
\<close>

definition gridOnly :: "Dungeon \<Rightarrow> Dungeon \<Rightarrow> bool" where
  "gridOnly d d' \<longleftrightarrow>
     wellFormed d' \<and> Dungeon.Width d' = Dungeon.Width d \<and> Dungeon.Height d' = Dungeon.Height d \<and>
     Rooms d' = Rooms d \<and> Enemies d' = Enemies d \<and> Items d' = Items d \<and>
     Dungeon.Level d' = Dungeon.Level d"

definition roomInBounds :: "Dungeon \<Rightarrow> Room \<Rightarrow> bool" where
  "roomInBounds d r \<longleftrightarrow>
     0 \<le> Room.X r \<and> 0 \<le> Room.Y r \<and> 0 < Room.Width r \<and> 0 < Room.Height r \<and>
     Room.X r + Room.Width r \<le> Dungeon.Width d \<and> Room.Y r + Room.Height r \<le> Dungeon.Height d"

definition paddedCells :: "Room \<Rightarrow> (int \<times> int) set" where
  "paddedCells r =
     {(x, y). Room.X r - 1 \<le> x \<and> x \<le> Room.X r + Room.Width r \<and>
              Room.Y r - 1 \<le> y \<and> y \<le> Room.Y r + Room.Height r}"

definition noOverlap :: "Room list \<Rightarrow> bool" where
  "noOverlap rs \<longleftrightarrow>
     (\<forall>i < length rs. \<forall>j < length rs. i \<noteq> j \<longrightarrow>
        \<not> roomsOverlap (rs ! i) (rs ! j) \<and> paddedCells (rs ! i) \<inter> paddedCells (rs ! j) = {})"

definition roomsValid :: "Dungeon \<Rightarrow> bool" where
  "roomsValid d \<longleftrightarrow> wellFormed d \<and> noOverlap (Rooms d) \<and> list_all (roomInBounds d) (Rooms d)"

definition sameButRoomsGrid :: "Dungeon \<Rightarrow> Dungeon \<Rightarrow> bool" where
  "sameButRoomsGrid d d' \<longleftrightarrow>
     Dungeon.Width d' = Dungeon.Width d \<and> Dungeon.Height d' = Dungeon.Height d \<and>
     Enemies d' = Enemies d \<and> Items d' = Items d \<and> Dungeon.Level d' = Dungeon.Level d"

text \<open>
  What the feature placer and the spawners leave behind: a treasure item as
  \<open>addTreasures\<close> registers it, the dungeon after \<open>addTreasures\<close> and after
  \<open>addFeatures\<close>, an enemy taken from a table, an enemy next to the player, and two
  dungeons with the same tiles.
\<close>

definition insideRoom :: "Room \<Rightarrow> int \<Rightarrow> int \<Rightarrow> bool" where
  "insideRoom r x y \<longleftrightarrow>
     Room.X r \<le> x \<and> x < Room.X r + Room.Width r \<and> Room.Y r \<le> y \<and> y < Room.Y r + Room.Height r"

definition treasureItem :: "Dungeon \<Rightarrow> Item \<Rightarrow> bool" where
  "treasureItem d it \<longleftrightarrow>
     Type it = ItemTreasure \<and> Item.Name it = ''Gold'' \<and> 10 \<le> Value it \<and> Value it \<le> 99 \<and>
     Item.Symbol it = 36 \<and> \<not> Collected it \<and>
     gridGet d (Item.X it) (Item.Y it) = Some Treasure \<and>
     list_ex (\<lambda>r. insideRoom r (Item.X it) (Item.Y it)) (Rooms d)"

definition treasuresAdded :: "Dungeon \<Rightarrow> Dungeon \<Rightarrow> Item list \<Rightarrow> bool" where
  "treasuresAdded d d' new \<longleftrightarrow>
     wellFormed d' \<and> Dungeon.Width d' = Dungeon.Width d \<and> Dungeon.Height d' = Dungeon.Height d \<and>
     Rooms d' = Rooms d \<and> Enemies d' = Enemies d \<and> Dungeon.Level d' = Dungeon.Level d \<and>
     Items d' = Items d @ new \<and> list_all (treasureItem d') new \<and>
     (\<forall>x y. gridGet d' x y \<noteq> gridGet d x y \<longrightarrow>
        gridGet d' x y = Some Treasure \<and> list_ex (\<lambda>it. Item.X it = x \<and> Item.Y it = y) new)"

definition featuresAdded :: "Dungeon \<Rightarrow> Dungeon \<Rightarrow> bool" where
  "featuresAdded d d' \<longleftrightarrow>
     wellFormed d' \<and> Dungeon.Width d' = Dungeon.Width d \<and> Dungeon.Height d' = Dungeon.Height d \<and>
     Rooms d' = Rooms d \<and> Enemies d' = Enemies d \<and> Dungeon.Level d' = Dungeon.Level d"

definition fromTable :: "(string \<times> rune \<times> int \<times> int) list \<Rightarrow> Enemy \<Rightarrow> bool" where
  "fromTable table e \<longleftrightarrow>
     (Enemy.Name e, Enemy.Symbol e, Enemy.Health e, Damage e) \<in> set table \<and> Hostile e"

definition spawnedInRooms :: "Dungeon \<Rightarrow> Enemy \<Rightarrow> bool" where
  "spawnedInRooms d e \<longleftrightarrow>
     fromTable enemyTypes e \<and> list_ex (\<lambda>r. insideRoom r (Enemy.X e) (Enemy.Y e)) (tl (Rooms d))"

definition adjacent :: "Player \<Rightarrow> Enemy \<Rightarrow> bool" where
  "adjacent p e \<longleftrightarrow>
     \<bar>Enemy.X e - Player.X p\<bar> \<le> 1 \<and> \<bar>Enemy.Y e - Player.Y p\<bar> \<le> 1 \<and>
     (Enemy.X e \<noteq> Player.X p \<or> Enemy.Y e \<noteq> Player.Y p)"


text \<open>
  The generators in the words of the specification, as functions of the tape. \<open>draw n\<close>
  is a uniformly chosen value below \<open>n\<close>: what \<open>rand.Intn n\<close> returns on the tape and
  the tape it leaves.
\<close>

definition draw :: "int \<Rightarrow> nat list \<Rightarrow> int \<times> nat list" where
  "draw n t = (case t of [] \<Rightarrow> (0, []) | r # rs \<Rightarrow> (int r mod n, rs))"

text \<open>
  Treasure: for every room a chance of 40 in 100 to place one treasure at a uniformly
  chosen cell of the room, with an item of a value uniformly chosen from 10 to 99
  registered at that cell.
\<close>

fun addTreasures_spec :: "Room list \<Rightarrow> nat list \<Rightarrow> Item list \<times> nat list" where
  "addTreasures_spec [] t = ([], t)"
| "addTreasures_spec (room # rooms) t =
     (let (chance, t1) = draw 100 t in
      if chance < 40 then
        (let (dx, t2) = draw (Room.Width room) t1;
             (dy, t3) = draw (Room.Height room) t2;
             (v, t4) = draw 90 t3;
             (items, t5) = addTreasures_spec rooms t4
         in (\<lparr>Item.X = Room.X room + dx, Item.Y = Room.Y room + dy, Type = ItemTreasure,
              Item.Name = ''Gold'', Description = [], Value = 10 + v, Item.Symbol = 36,
              Collected = False\<rparr> # items, t5))
      else addTreasures_spec rooms t1)"

text \<open>
  Spawning: each enemy gets a uniformly chosen room other than the first, a uniformly
  chosen cell of it and a uniformly chosen entry of the table; the count is uniformly
  chosen between the bounds, and nothing is spawned with fewer than two rooms.
\<close>

fun spawn_spec ::
  "(string \<times> rune \<times> int \<times> int) list \<Rightarrow> nat \<Rightarrow> Room list \<Rightarrow> nat list \<Rightarrow> Enemy list \<times> nat list" where
  "spawn_spec table 0 rooms t = ([], t)"
| "spawn_spec table (Suc k) rooms t =
     (let (ri, t1) = draw (int (length rooms) - 1) t;
          room = rooms ! nat (1 + ri);
          (dx, t2) = draw (Room.Width room) t1;
          (dy, t3) = draw (Room.Height room) t2;
          (ti, t4) = draw (int (length table)) t3;
          (enemies, t5) = spawn_spec table k rooms t4
      in (newEnemy (Room.X room + dx) (Room.Y room + dy) (table ! nat ti) # enemies, t5))"

definition spawnEnemies_spec :: "int \<Rightarrow> int \<Rightarrow> Room list \<Rightarrow> nat list \<Rightarrow> Enemy list \<times> nat list" where
  "spawnEnemies_spec minE maxE rooms t =
     (let (c, t1) = draw (maxE - minE + 1) t
      in if length rooms \<le> 1 then ([], t1)
         else spawn_spec
                [(''Goblin'', 103, 3, 1), (''Orc'', 111, 5, 2), (''Troll'', 84, 8, 3),
                 (''Rat'', 114, 1, 1), (''Skeleton'', 115, 4, 2)]
                (nat (minE + c)) rooms t1)"

text \<open>
  The rest interruption: one enemy on the first of the eight cells around the player
  that is walkable and free, with a uniformly chosen entry of the table of two; none
  when no such cell exists.
\<close>

definition freeCell :: "Player \<Rightarrow> Dungeon \<Rightarrow> int \<times> int \<Rightarrow> bool" where
  "freeCell p d pos \<longleftrightarrow>
     IsWalkable d (Player.X p + fst pos) (Player.Y p + snd pos) = Some True \<and>
     GetEnemyAt d (Player.X p + fst pos) (Player.Y p + snd pos) = None"

definition spawnEnemyNearPlayer_spec :: "Player \<Rightarrow> Dungeon \<Rightarrow> nat list \<Rightarrow> Enemy list \<times> nat list" where
  "spawnEnemyNearPlayer_spec p d t =
     (case find (freeCell p d)
             [(-1, -1), (0, -1), (1, -1), (-1, 0), (1, 0), (-1, 1), (0, 1), (1, 1)] of
        None \<Rightarrow> ([], t)
      | Some pos \<Rightarrow>
          (let (ti, t1) = draw 2 t
           in ([newEnemy (Player.X p + fst pos) (Player.Y p + snd pos)
                  ([(''Goblin'', 103, 3, 1), (''Rat'', 114, 1, 1)] ! nat ti)], t1)))"

text \<open>The table entry an enemy shows: name, symbol, health, damage.\<close>

definition enemyType :: "Enemy \<Rightarrow> string \<times> rune \<times> int \<times> int" where
  "enemyType e = (Enemy.Name e, Enemy.Symbol e, Enemy.Health e, Damage e)"



text \<open>
  Concrete values used to run the definitions: the state with an empty tape and an empty
  console, a row of floor with a Troll at its end, and the grid of walls that
  \<open>NewDungeon 80 24\<close> starts from.
\<close>

definition world0 :: world where
  "world0 = \<lparr>rand = [], out = []\<rparr>"

definition trollDungeon :: Dungeon where
  "trollDungeon =
     \<lparr>Dungeon.Width = 3, Dungeon.Height = 1, Grid = [[46, 46, 46]], Rooms = [],
      Enemies = [newEnemy 2 0 (''Troll'', 84, 8, 3)], Items = [], Dungeon.Level = 1\<rparr>"

definition wallDungeon :: Dungeon where
  "wallDungeon =
     \<lparr>Dungeon.Width = 80, Dungeon.Height = 24, Grid = replicate 24 (replicate 80 Wall),
      Rooms = [], Enemies = [], Items = [], Dungeon.Level = 1\<rparr>"

text \<open>
  Two carved rooms of 4 by 4 in a grid of 12 by 6; a row of floor with an enemy whose
  damage is the least 64-bit integer; a row with a trap in the middle.
\<close>

definition twoRoomDungeon :: Dungeon where
  "twoRoomDungeon =
     \<lparr>Dungeon.Width = 12, Dungeon.Height = 6,
      Grid = [replicate 12 35,
              [35, 46, 46, 46, 46, 35, 35, 46, 46, 46, 46, 35],
              [35, 46, 46, 46, 46, 35, 35, 46, 46, 46, 46, 35],
              [35, 46, 46, 46, 46, 35, 35, 46, 46, 46, 46, 35],
              [35, 46, 46, 46, 46, 35, 35, 46, 46, 46, 46, 35],
              replicate 12 35],
      Rooms = [\<lparr>Room.X = 1, Room.Y = 1, Room.Width = 4, Room.Height = 4\<rparr>,
               \<lparr>Room.X = 7, Room.Y = 1, Room.Width = 4, Room.Height = 4\<rparr>],
      Enemies = [], Items = [], Dungeon.Level = 1\<rparr>"

definition wrapDungeon :: Dungeon where
  "wrapDungeon =
     \<lparr>Dungeon.Width = 3, Dungeon.Height = 1, Grid = [[46, 46, 46]], Rooms = [],
      Enemies = [newEnemy 2 0 (''Troll'', 84, 8, - 9223372036854775808)], Items = [],
      Dungeon.Level = 1\<rparr>"


text \<open>
  A dungeon of the game's size at level 2, as a first descent leaves it when every draw
  is 0: one room of 4 by 4 at (1, 1), a treasure at (1, 1) and the stairs at (3, 3),
  the centre of the room, where the player is placed.
\<close>

definition level2Dungeon :: Dungeon where
  "level2Dungeon =
     \<lparr>Dungeon.Width = 80, Dungeon.Height = 24,
      Grid = [replicate 80 35,
              [35, 36, 46, 46, 46] @ replicate 75 35,
              [35, 46, 46, 46, 46] @ replicate 75 35,
              [35, 46, 46, 62, 46] @ replicate 75 35,
              [35, 46, 46, 46, 46] @ replicate 75 35] @ replicate 19 (replicate 80 35),
      Rooms = [\<lparr>Room.X = 1, Room.Y = 1, Room.Width = 4, Room.Height = 4\<rparr>],
      Enemies = [],
      Items = [\<lparr>Item.X = 1, Item.Y = 1, Type = ItemTreasure, Item.Name = ''Gold'',
                Description = [], Value = 10, Item.Symbol = 36, Collected = False\<rparr>],
      Dungeon.Level = 2\<rparr>"

section \<open>Level-up\<close>

lemmas tile_defs = Floor_def Wall_def Door_def Treasure_def Trap_def StairsDown_def

lemma CheckLevelUp_stop:
  "Exp p < 100 * Player.Level p \<Longrightarrow> CheckLevelUp p w = (p, w)"
  by (subst CheckLevelUp.simps) (simp add: Let_def)

lemma CheckLevelUp_step:
  "100 * Player.Level p \<le> Exp p \<Longrightarrow>
   CheckLevelUp p w =
     CheckLevelUp
       (p\<lparr>Player.Level := Player.Level p + 1, Exp := Exp p - 100 * Player.Level p,
          MaxHealth := MaxHealth p + 5, Player.Health := MaxHealth p + 5,
          Attack := Attack p + 1\<rparr>)
       (Print (Printf ''Your health increased to %d and your attack increased to %d.\<newline>''
                 [D (MaxHealth p + 5), D (Attack p + 1)])
          (Print (Printf ''Level up! You are now level %d.\<newline>'' [D (Player.Level p + 1)]) w))"
  by (subst CheckLevelUp.simps) (simp add: Let_def)



text \<open>
  C2, as the code has it: for every player at level 1 with 250 experience the check
  levels up once, to level 2 with 150 experience left, \<open>MaxHealth\<close> raised by 5, full
  health and attack raised by 1; the threshold of level 2 is 200, so the check stops
  there.
\<close>

theorem CheckLevelUp_250:
  assumes "Player.Level p = 1" and "Exp p = 250"
  shows "fst (CheckLevelUp p w)
     = p\<lparr>Player.Level := 2, Exp := 150, MaxHealth := MaxHealth p + 5,
         Player.Health := MaxHealth p + 5, Attack := Attack p + 1\<rparr>"
  using assms by (simp add: CheckLevelUp_step CheckLevelUp_stop)

theorem CheckLevelUp_250_witness:
  "fst (CheckLevelUp (NewPlayer 0 0\<lparr>Exp := 250\<rparr>) world0)
     = \<lparr>Player.X = 0, Player.Y = 0, Player.Health = 25, MaxHealth = 25, Attack = 4,
        Defense = 1, Gold = 0, Player.Level = 2, Exp = 150, Inventory = []\<rparr>"
  using CheckLevelUp_250 [of "NewPlayer 0 0\<lparr>Exp := 250\<rparr>" world0]
  by (simp add: NewPlayer_def)

text \<open>C2 as stated fails: the level reached from level 1 with 250 experience is not 3.\<close>

theorem CheckLevelUp_250_not_level_3:
  "Player.Level (fst (CheckLevelUp (NewPlayer 0 0\<lparr>Exp := 250\<rparr>) world0)) \<noteq> 3"
  by (simp add: NewPlayer_def CheckLevelUp_step CheckLevelUp_stop)

section \<open>Combat\<close>

text \<open>
  C6 as stated fails where the subtraction leaves the 64-bit range: against an enemy
  with the least damage an \<open>int\<close> holds and a defense of 1, the claim's
  \<open>max 1 (damage - defense)\<close> is 1 and would leave 19 health of 20, while the code's
  difference wraps to the greatest \<open>int\<close> and the player loses that much.
\<close>

theorem AttackEnemy_counterattack_wraps:
  "map_option (Player.Health \<circ> fst) (AttackEnemy (NewPlayer 1 0) 0 wrapDungeon world0)
     = Some (20 - 9223372036854775807)
   \<and> Player.Health (NewPlayer 1 0)
       - max 1 (Damage (Enemies wrapDungeon ! 0) - Defense (NewPlayer 1 0)) = 19"
  by (simp add: AttackEnemy_def wrapDungeon_def newEnemy_def NewPlayer_def wrap64_def Let_def)

lemma wrap64_id:
  "- 9223372036854775808 \<le> k \<Longrightarrow> k < 9223372036854775808 \<Longrightarrow> wrap64 k = k"
  by (simp add: wrap64_def)

text \<open>
  C6, as the code has it: when the enemy survives the player's hit, the player's health
  drops by \<open>max 1 (enemy.Damage - player.Defense)\<close> with the difference and the new
  health taken in 64-bit wrap-around arithmetic, and nothing else of the player changes;
  the enemy keeps its place with the hit taken from its health. That damage is at least
  1 for all values of damage and defense, and whenever the difference and the new health
  lie in the 64-bit range the loss is exactly \<open>max 1 (enemy.Damage - player.Defense)\<close>.
\<close>

theorem AttackEnemy_counterattack:
  assumes "i < length (Enemies d)"
    and "wrap64 (Enemy.Health (Enemies d ! i) - Attack p) > 0"
  shows "(\<exists>w'. AttackEnemy p i d w =
           Some (p\<lparr>Player.Health :=
                    wrap64 (Player.Health p - max 1 (wrap64 (Damage (Enemies d ! i) - Defense p)))\<rparr>,
                 d\<lparr>Enemies := (Enemies d)
                    [i := (Enemies d ! i)\<lparr>Enemy.Health :=
                            wrap64 (Enemy.Health (Enemies d ! i) - Attack p)\<rparr>]\<rparr>,
                 w'))
         \<and> max 1 (wrap64 (Damage (Enemies d ! i) - Defense p)) \<ge> 1
         \<and> (- 9223372036854775808 \<le> Damage (Enemies d ! i) - Defense p \<and>
            Damage (Enemies d ! i) - Defense p < 9223372036854775808 \<and>
            - 9223372036854775808 \<le> Player.Health p - max 1 (Damage (Enemies d ! i) - Defense p) \<and>
            Player.Health p - max 1 (Damage (Enemies d ! i) - Defense p) < 9223372036854775808
            \<longrightarrow>
            wrap64 (Player.Health p - max 1 (wrap64 (Damage (Enemies d ! i) - Defense p)))
              = Player.Health p - max 1 (Damage (Enemies d ! i) - Defense p))"
proof -
  have "\<exists>w'. AttackEnemy p i d w =
           Some (p\<lparr>Player.Health :=
                    wrap64 (Player.Health p - max 1 (wrap64 (Damage (Enemies d ! i) - Defense p)))\<rparr>,
                 d\<lparr>Enemies := (Enemies d)
                    [i := (Enemies d ! i)\<lparr>Enemy.Health :=
                            wrap64 (Enemy.Health (Enemies d ! i) - Attack p)\<rparr>]\<rparr>,
                 w')"
    using assms by (simp add: AttackEnemy_def Let_def max_def)
  then show ?thesis by (simp add: wrap64_id)
qed

theorem AttackEnemy_counterattack_witness:
  "map_option (Player.Health \<circ> fst) (AttackEnemy (NewPlayer 1 0) 0 trollDungeon world0) = Some 18"
  using AttackEnemy_counterattack [of 0 trollDungeon "NewPlayer 1 0" world0]
  by (auto simp: trollDungeon_def newEnemy_def NewPlayer_def wrap64_def)

section \<open>Using an item\<close>

text \<open>
  C7: for an index below 0 or at least the length of the inventory, \<open>UseItem\<close> prints
  "Invalid item index." and returns the player as it was, every field included.
\<close>

theorem UseItem_invalid_index:
  "itemIndex < 0 \<or> itemIndex \<ge> int (length (Inventory p)) \<Longrightarrow>
   UseItem p itemIndex w = (p, Print (Println ''Invalid item index.'') w)"
  by (simp add: UseItem_def)

theorem UseItem_invalid_index_witness:
  "UseItem (NewPlayer 0 0) 0 world0 = (NewPlayer 0 0, Print (Println ''Invalid item index.'') world0)"
  using UseItem_invalid_index [of 0 "NewPlayer 0 0" world0]
  by (simp add: NewPlayer_def)

section \<open>Tile queries\<close>

lemma index_Some: "0 \<le> i \<Longrightarrow> i < int (length xs) \<Longrightarrow> index xs i = Some (xs ! nat i)"
  by (simp add: index_def)

lemma wellFormed_row:
  assumes "wellFormed d" and "0 \<le> y" and "y < Dungeon.Height d"
  shows "nat y < length (Grid d)" and "int (length (Grid d ! nat y)) = Dungeon.Width d"
proof -
  from assms show ny: "nat y < length (Grid d)"
    unfolding wellFormed_def by linarith
  with assms(1) show "int (length (Grid d ! nat y)) = Dungeon.Width d"
    by (simp add: wellFormed_def list_all_length)
qed

lemma gridGet_wellFormed:
  "wellFormed d \<Longrightarrow> 0 \<le> x \<Longrightarrow> x < Dungeon.Width d \<Longrightarrow> 0 \<le> y \<Longrightarrow> y < Dungeon.Height d \<Longrightarrow>
   gridGet d x y = Some (Grid d ! nat y ! nat x)"
  using wellFormed_row [of d y] by (simp add: gridGet_def index_def)

text \<open>
  C10: on a dungeon whose grid has the declared shape, both queries return for every
  pair of coordinates, without a panic: \<open>GetTileAt\<close> gives \<open>Wall\<close> outside the grid and
  the stored tile inside, \<open>IsWalkable\<close> gives false outside and inside tells whether the
  stored tile is one of \<open>Floor\<close>, \<open>Door\<close>, \<open>Treasure\<close>, \<open>Trap\<close>, \<open>StairsDown\<close>.
\<close>

theorem tile_queries_total:
  assumes "wellFormed d"
  shows "GetTileAt d x y =
           Some (if x < 0 \<or> y < 0 \<or> x \<ge> Dungeon.Width d \<or> y \<ge> Dungeon.Height d then Wall
                 else Grid d ! nat y ! nat x)
       \<and> IsWalkable d x y =
           Some (0 \<le> x \<and> x < Dungeon.Width d \<and> 0 \<le> y \<and> y < Dungeon.Height d \<and>
                 Grid d ! nat y ! nat x \<in> {Floor, Door, Treasure, Trap, StairsDown})"
  using assms by (auto simp: GetTileAt_def IsWalkable_def gridGet_wellFormed)

lemma wellFormed_trollDungeon: "wellFormed trollDungeon"
  by (simp add: wellFormed_def trollDungeon_def)

theorem tile_queries_total_witness:
  "GetTileAt trollDungeon 1 0 = Some Floor \<and> GetTileAt trollDungeon 3 0 = Some Wall
   \<and> GetTileAt trollDungeon 0 (-1) = Some Wall
   \<and> IsWalkable trollDungeon 1 0 = Some True \<and> IsWalkable trollDungeon 3 0 = Some False"
  using tile_queries_total [OF wellFormed_trollDungeon, of 1 0]
    tile_queries_total [OF wellFormed_trollDungeon, of 3 0]
    tile_queries_total [OF wellFormed_trollDungeon, of 0 "-1"]
  by (simp add: trollDungeon_def tile_defs)

section \<open>Generation: every step returns and keeps the shape of the grid\<close>

lemma gridOnly_refl: "wellFormed d \<Longrightarrow> gridOnly d d"
  by (simp add: gridOnly_def)

lemma gridOnly_trans: "gridOnly a b \<Longrightarrow> gridOnly b c \<Longrightarrow> gridOnly a c"
  by (simp add: gridOnly_def)

lemma gridOnly_wf: "gridOnly a b \<Longrightarrow> wellFormed b"
  by (simp add: gridOnly_def)

lemma gridSet_wellFormed:
  assumes "wellFormed d" "0 \<le> x" "x < Dungeon.Width d" "0 \<le> y" "y < Dungeon.Height d"
  shows "\<exists>d'. gridSet d x y v = Some d' \<and> gridOnly d d'"
proof -
  note r = wellFormed_row [OF assms(1,4,5)]
  have "gridSet d x y v = Some (d\<lparr>Grid := (Grid d)[nat y := (Grid d ! nat y)[nat x := v]]\<rparr>)"
    using r assms by (simp add: gridSet_def index_def)
  moreover have "gridOnly d (d\<lparr>Grid := (Grid d)[nat y := (Grid d ! nat y)[nat x := v]]\<rparr>)"
    using assms(1) r
    by (auto simp: gridOnly_def wellFormed_def list_all_length nth_list_update)
  ultimately show ?thesis by blast
qed

lemma forLoop_total:
  assumes "I s"
    and "\<And>i s. lo \<le> i \<Longrightarrow> i < n \<Longrightarrow> I s \<Longrightarrow> \<exists>s'. body i s = Some s' \<and> I s'"
  shows "\<exists>s'. forLoop lo n body s = Some s' \<and> I s'"
  using assms
proof (induction lo n body s rule: forLoop.induct)
  case (1 i n body s)
  show ?case
  proof (cases "i < n")
    case True
    from "1.prems"(2) [of i s] True "1.prems"(1) obtain s1 where s1: "body i s = Some s1" "I s1"
      by auto
    have "\<exists>s'. forLoop (i + 1) n body s1 = Some s' \<and> I s'"
      by (rule "1.IH" [OF True s1(1) s1(2)]) (use "1.prems"(2) in auto)
    then show ?thesis using True s1 by (subst forLoop.simps) simp
  next
    case False
    then show ?thesis using "1.prems"(1) by (subst forLoop.simps) simp
  qed
qed

lemma forEach_total:
  assumes "I s"
    and "\<And>x s. x \<in> set xs \<Longrightarrow> I s \<Longrightarrow> \<exists>s'. body x s = Some s' \<and> I s'"
  shows "\<exists>s'. forEach xs body s = Some s' \<and> I s'"
  using assms
proof (induction xs arbitrary: s)
  case Nil
  then show ?case by simp
next
  case (Cons x xs)
  from Cons.prems(2) [of x s] Cons.prems(1) obtain s1 where s1: "body x s = Some s1" "I s1"
    by auto
  have "\<exists>s'. forEach xs body s1 = Some s' \<and> I s'"
    by (rule Cons.IH [OF s1(2)]) (use Cons.prems(2) in auto)
  then show ?case using s1 by simp
qed

lemma carveRoom_total:
  assumes wf: "wellFormed d" and r: "0 \<le> Room.X room" "0 \<le> Room.Y room"
    "Room.X room + Room.Width room \<le> Dungeon.Width d"
    "Room.Y room + Room.Height room \<le> Dungeon.Height d"
  shows "\<exists>d'. carveRoom room d = Some d' \<and> gridOnly d d'"
  unfolding carveRoom_def
proof (rule forLoop_total)
  show "gridOnly d d" by (rule gridOnly_refl [OF wf])
next
  fix y s
  assume y: "Room.Y room \<le> y" "y < Room.Y room + Room.Height room" and s: "gridOnly d s"
  show "\<exists>s'. forLoop (Room.X room) (Room.X room + Room.Width room) (\<lambda>x d. gridSet d x y Floor) s
           = Some s' \<and> gridOnly d s'"
  proof (rule forLoop_total)
    show "gridOnly d s" by (rule s)
  next
    fix x t
    assume x: "Room.X room \<le> x" "x < Room.X room + Room.Width room" and t: "gridOnly d t"
    have "\<exists>t'. gridSet t x y Floor = Some t' \<and> gridOnly t t'"
      using t x y r by (intro gridSet_wellFormed) (auto simp: gridOnly_def)
    with t show "\<exists>t'. gridSet t x y Floor = Some t' \<and> gridOnly d t'"
      by (blast intro: gridOnly_trans)
  qed
qed

lemma roomsOverlap_sym: "roomsOverlap a b = roomsOverlap b a"
  by (auto simp: roomsOverlap_def)

lemma paddedCells_disjoint:
  assumes "\<not> roomsOverlap a b"
  shows "paddedCells a \<inter> paddedCells b = {}"
  using assms by (auto simp: roomsOverlap_def paddedCells_def)

lemma noOverlap_snoc:
  assumes "noOverlap rs" and "\<not> list_ex (\<lambda>room. roomsOverlap r room) rs"
  shows "noOverlap (rs @ [r])"
proof -
  have new: "\<And>q. q \<in> set rs \<Longrightarrow> \<not> roomsOverlap r q \<and> \<not> roomsOverlap q r"
    using assms(2) by (auto simp: list_ex_iff roomsOverlap_sym)
  show ?thesis
    unfolding noOverlap_def
  proof (intro allI impI)
    fix i j
    assume i: "i < length (rs @ [r])" and j: "j < length (rs @ [r])" and ij: "i \<noteq> j"
    have "\<not> roomsOverlap ((rs @ [r]) ! i) ((rs @ [r]) ! j)"
    proof (cases "i < length rs")
      case True
      show ?thesis
      proof (cases "j < length rs")
        case jT: True
        with True ij assms(1) show ?thesis by (simp add: noOverlap_def nth_append)
      next
        case False
        with j have "j = length rs" by simp
        with True new [of "rs ! i"] show ?thesis by (simp add: nth_append)
      qed
    next
      case False
      with i have i': "i = length rs" by simp
      with ij j have "j < length rs" by simp
      with i' new [of "rs ! j"] show ?thesis by (simp add: nth_append)
    qed
    then show "\<not> roomsOverlap ((rs @ [r]) ! i) ((rs @ [r]) ! j) \<and>
        paddedCells ((rs @ [r]) ! i) \<inter> paddedCells ((rs @ [r]) ! j) = {}"
      by (simp add: paddedCells_disjoint)
  qed
qed

lemma Intn_range:
  assumes "0 < n"
  shows "\<exists>r w'. Intn n w = Some (r, w') \<and> 0 \<le> r \<and> r < n \<and> out w' = out w"
  using assms by (auto simp: Intn_def split: list.splits)

lemma wellFormed_Rooms_update [simp]: "wellFormed (d\<lparr>Rooms := rs\<rparr>) = wellFormed d"
  by (simp add: wellFormed_def)

lemma wellFormed_Items_update [simp]: "wellFormed (d\<lparr>Items := rs\<rparr>) = wellFormed d"
  by (simp add: wellFormed_def)

lemma wellFormed_Enemies_update [simp]: "wellFormed (d\<lparr>Enemies := rs\<rparr>) = wellFormed d"
  by (simp add: wellFormed_def)

lemma wellFormed_Level_update [simp]: "wellFormed (d\<lparr>Dungeon.Level := l\<rparr>) = wellFormed d"
  by (simp add: wellFormed_def)

lemma quot_nonneg: "0 \<le> a \<Longrightarrow> 0 < b \<Longrightarrow> quot a b = a div b"
  by (cases "a = 0") (simp_all add: quot_def)

lemma middle_room:
  fixes n :: int
  assumes "13 \<le> n"
  shows "0 \<le> quot n 4" "0 < quot n 2" "quot n 4 + quot n 2 \<le> n"
  using assms by (simp_all add: quot_nonneg)

lemma generateRooms_try_total:
  assumes inv: "roomsValid d" and big: "13 \<le> Dungeon.Width d" "13 \<le> Dungeon.Height d"
  shows "\<exists>d' w'. generateRooms_try 4 10 (d, w) = Some (d', w') \<and>
           roomsValid d' \<and> sameButRoomsGrid d d' \<and> (Rooms d = [] \<longrightarrow> Rooms d' \<noteq> [])
           \<and> (Rooms d \<noteq> [] \<longrightarrow> Rooms d' \<noteq> [])"
proof -
  from Intn_range [of 7 w] obtain rw w1
    where rw: "Intn 7 w = Some (rw, w1)" "0 \<le> rw" "rw < 7" by auto
  from Intn_range [of 7 w1] obtain rh w2
    where rh: "Intn 7 w1 = Some (rh, w2)" "0 \<le> rh" "rh < 7" by auto
  from big rw have "0 < Dungeon.Width d - (4 + rw) - 2" by simp
  from Intn_range [OF this, of w2] obtain rx w3
    where rx: "Intn (Dungeon.Width d - (4 + rw) - 2) w2 = Some (rx, w3)"
      "0 \<le> rx" "rx < Dungeon.Width d - (4 + rw) - 2" by auto
  from big rh have "0 < Dungeon.Height d - (4 + rh) - 2" by simp
  from Intn_range [OF this, of w3] obtain ry w4
    where ry: "Intn (Dungeon.Height d - (4 + rh) - 2) w3 = Some (ry, w4)"
      "0 \<le> ry" "ry < Dungeon.Height d - (4 + rh) - 2" by auto
  let ?r = "\<lparr>Room.X = 1 + rx, Room.Y = 1 + ry, Room.Width = 4 + rw, Room.Height = 4 + rh\<rparr>"
  from inv have wf: "wellFormed d" by (simp add: roomsValid_def)
  show ?thesis
  proof (cases "list_ex (\<lambda>room. roomsOverlap ?r room) (Rooms d)")
    case True
    then have "generateRooms_try 4 10 (d, w) = Some (d, w4)"
      using rw rh rx ry by simp
    moreover from True have "Rooms d \<noteq> []" by auto
    ultimately show ?thesis using inv by (simp add: sameButRoomsGrid_def)
  next
    case False
    have "\<exists>d1. carveRoom ?r d = Some d1 \<and> gridOnly d d1"
      using rw rh rx ry by (intro carveRoom_total [OF wf]) simp_all
    then obtain d1 where d1: "carveRoom ?r d = Some d1" "gridOnly d d1" by blast
    let ?d' = "d1\<lparr>Rooms := Rooms d1 @ [?r]\<rparr>"
    have res: "generateRooms_try 4 10 (d, w) = Some (?d', w4)"
      using rw rh rx ry False d1 by simp
    have "noOverlap (Rooms d @ [?r])"
      using inv False by (intro noOverlap_snoc) (simp_all add: roomsValid_def)
    moreover have "roomInBounds ?d' ?r"
      using rw rh rx ry d1(2) by (simp add: roomInBounds_def gridOnly_def)
    moreover have "list_all (roomInBounds ?d') (Rooms d)"
      using inv d1(2) by (simp add: roomsValid_def gridOnly_def roomInBounds_def list_all_iff)
    moreover have "wellFormed ?d'"
      using d1(2) by (simp add: gridOnly_def)
    ultimately have "roomsValid ?d'"
      using d1(2) by (simp add: roomsValid_def gridOnly_def)
    moreover have "sameButRoomsGrid d ?d'"
      using d1(2) by (simp add: sameButRoomsGrid_def gridOnly_def)
    ultimately show ?thesis using res by simp
  qed
qed

lemma generateRooms_total:
  assumes wf: "wellFormed d" and empty: "Rooms d = []"
    and big: "13 \<le> Dungeon.Width d" "13 \<le> Dungeon.Height d"
    and cnt: "minRooms \<le> maxRooms"
  shows "\<exists>d' w'. generateRooms minRooms maxRooms d w = Some (d', w') \<and>
           Rooms d' \<noteq> [] \<and> roomsValid d' \<and> sameButRoomsGrid d d'"
proof -
  from cnt have "0 < maxRooms - minRooms + 1" by simp
  from Intn_range [OF this, of w] obtain r w1
    where r: "Intn (maxRooms - minRooms + 1) w = Some (r, w1)" by auto
  let ?I = "\<lambda>(d', w'). roomsValid d' \<and> sameButRoomsGrid d d'"
  have "\<exists>s'. forLoop 0 (minRooms + r) (\<lambda>i. generateRooms_try 4 10) (d, w1) = Some s' \<and> ?I s'"
  proof (rule forLoop_total)
    show "?I (d, w1)"
      using wf empty by (simp add: roomsValid_def sameButRoomsGrid_def noOverlap_def)
  next
    fix i :: int and s :: "Dungeon \<times> world"
    assume "?I s"
    then obtain e v where s: "s = (e, v)" and e: "roomsValid e" "sameButRoomsGrid d e"
      by (cases s) auto
    from e(2) big have "13 \<le> Dungeon.Width e" "13 \<le> Dungeon.Height e"
      by (simp_all add: sameButRoomsGrid_def)
    from generateRooms_try_total [OF e(1) this, of v] e(2)
    show "\<exists>s'. generateRooms_try 4 10 s = Some s' \<and> ?I s'"
      unfolding s by (auto simp: sameButRoomsGrid_def)
  qed
  then obtain d1 w2
    where loop: "forLoop 0 (minRooms + r) (\<lambda>i. generateRooms_try 4 10) (d, w1) = Some (d1, w2)"
      and d1: "roomsValid d1" "sameButRoomsGrid d d1"
    by auto
  show ?thesis
  proof (cases "Rooms d1 = []")
    case False
    then have "generateRooms minRooms maxRooms d w = Some (d1, w2)"
      using r loop by (simp add: generateRooms_def)
    with False d1 show ?thesis by simp
  next
    case True
    let ?room = "\<lparr>Room.X = quot (Dungeon.Width d1) 4, Room.Y = quot (Dungeon.Height d1) 4,
                   Room.Width = quot (Dungeon.Width d1) 2,
                   Room.Height = quot (Dungeon.Height d1) 2\<rparr>"
    from d1(2) big have big1: "13 \<le> Dungeon.Width d1" "13 \<le> Dungeon.Height d1"
      by (simp_all add: sameButRoomsGrid_def)
    from d1(1) have wf1: "wellFormed d1" by (simp add: roomsValid_def)
    have "\<exists>d2. carveRoom ?room d1 = Some d2 \<and> gridOnly d1 d2"
      using middle_room [OF big1(1)] middle_room [OF big1(2)]
      by (intro carveRoom_total [OF wf1]) simp_all
    then obtain d2 where d2: "carveRoom ?room d1 = Some d2" "gridOnly d1 d2" by blast
    have res: "generateRooms minRooms maxRooms d w = Some (d2\<lparr>Rooms := Rooms d2 @ [?room]\<rparr>, w2)"
      using r loop True d2(1) by (simp add: generateRooms_def)
    have nil: "Rooms d2 = []" using d2(2) True by (simp add: gridOnly_def)
    have "roomInBounds (d2\<lparr>Rooms := [?room]\<rparr>) ?room"
      using middle_room [OF big1(1)] middle_room [OF big1(2)] d2(2)
      by (simp add: roomInBounds_def gridOnly_def)
    moreover have "wellFormed (d2\<lparr>Rooms := [?room]\<rparr>)"
      using d2(2) by (simp add: gridOnly_def)
    ultimately have "roomsValid (d2\<lparr>Rooms := [?room]\<rparr>)"
      by (simp add: roomsValid_def noOverlap_def)
    moreover have "sameButRoomsGrid d (d2\<lparr>Rooms := [?room]\<rparr>)"
      using d1(2) d2(2) by (simp add: sameButRoomsGrid_def gridOnly_def)
    ultimately show ?thesis using res nil by simp
  qed
qed

text \<open>
  C9: room generation, run on a grid of the declared shape that is at least 13 by 13
  and has no rooms yet, returns; the room list it leaves is not empty, and any two
  rooms at different places of the list do not overlap by the test of \<open>roomsOverlap\<close>
  and have disjoint bounding boxes when each is padded by one tile on every side.
  Every room lies within the grid.
\<close>

theorem generateRooms_rooms:
  assumes "wellFormed d" and "Rooms d = []"
    and "13 \<le> Dungeon.Width d" and "13 \<le> Dungeon.Height d"
    and "minRooms \<le> maxRooms"
  shows "\<exists>d' w'. generateRooms minRooms maxRooms d w = Some (d', w') \<and>
           Rooms d' \<noteq> [] \<and>
           (\<forall>i < length (Rooms d'). \<forall>j < length (Rooms d'). i \<noteq> j \<longrightarrow>
              \<not> roomsOverlap (Rooms d' ! i) (Rooms d' ! j) \<and>
              paddedCells (Rooms d' ! i) \<inter> paddedCells (Rooms d' ! j) = {}) \<and>
           (\<forall>r \<in> set (Rooms d'). roomInBounds d' r)"
  using generateRooms_total [OF assms, of w]
  by (auto simp: roomsValid_def noOverlap_def list_all_iff)

lemma wellFormed_wallDungeon: "wellFormed wallDungeon"
  by (simp add: wellFormed_def wallDungeon_def list_all_iff)

theorem generateRooms_rooms_witness:
  "\<exists>d' w'. generateRooms 4 8 wallDungeon world0 = Some (d', w') \<and> Rooms d' \<noteq> [] \<and>
     (\<forall>r \<in> set (Rooms d'). roomInBounds d' r)"
  using generateRooms_rooms [OF wellFormed_wallDungeon, of 4 8 world0]
  by (simp add: wallDungeon_def) blast

lemma gridGet_gridSet:
  assumes "gridSet d x y v = Some d'"
  shows "gridGet d' x' y' = (if x' = x \<and> y' = y then Some v else gridGet d x' y')"
proof -
  from assms have y: "0 \<le> y" "y < int (length (Grid d))"
    and x: "0 \<le> x" "x < int (length (Grid d ! nat y))"
    and d': "d' = d\<lparr>Grid := (Grid d)[nat y := (Grid d ! nat y)[nat x := v]]\<rparr>"
    by (auto simp: gridSet_def index_def split: if_splits bind_splits)
  from y x have ny: "nat y < length (Grid d)" and nx: "nat x < length (Grid d ! nat y)"
    by simp_all
  show ?thesis
  proof (cases "0 \<le> y' \<and> y' < int (length (Grid d))")
    case False
    then show ?thesis using y by (auto simp: gridGet_def index_def d')
  next
    case True
    show ?thesis
    proof (cases "y' = y")
      case False
      with True y have "nat y' \<noteq> nat y" by arith
      with True show ?thesis by (auto simp: gridGet_def index_def d' False)
    next
      case yy: True
      show ?thesis
      proof (cases "x' = x")
        case True
        with yy x y ny nx show ?thesis by (simp add: gridGet_def index_def d')
      next
        case False
        then have "0 \<le> x' \<Longrightarrow> nat x' \<noteq> nat x" using x by arith
        with yy y ny False show ?thesis
          by (auto simp: gridGet_def index_def d')
      qed
    qed
  qed
qed

lemma corridor_cell_total:
  assumes "gridOnly d t"
  shows "\<exists>t'. (if y \<ge> 0 \<and> y < Dungeon.Height t \<and> x \<ge> 0 \<and> x < Dungeon.Width t
               then gridSet t x y Floor else Some t) = Some t' \<and> gridOnly d t'"
proof (cases "y \<ge> 0 \<and> y < Dungeon.Height t \<and> x \<ge> 0 \<and> x < Dungeon.Width t")
  case True
  then have "\<exists>t'. gridSet t x y Floor = Some t' \<and> gridOnly t t'"
    using assms by (intro gridSet_wellFormed) (simp_all add: gridOnly_def)
  with True assms show ?thesis by (auto intro: gridOnly_trans)
next
  case False
  with assms show ?thesis by auto
qed

lemma createHorizontalCorridor_total:
  assumes "wellFormed d"
  shows "\<exists>d'. createHorizontalCorridor x1 x2 y d = Some d' \<and> gridOnly d d'"
  unfolding createHorizontalCorridor_def Let_def split_def
  by (rule forLoop_total [where I = "gridOnly d", OF gridOnly_refl [OF assms]])
     (rule corridor_cell_total)

lemma createVerticalCorridor_total:
  assumes "wellFormed d"
  shows "\<exists>d'. createVerticalCorridor y1 y2 x d = Some d' \<and> gridOnly d d'"
  unfolding createVerticalCorridor_def Let_def split_def
  by (rule forLoop_total [where I = "gridOnly d", OF gridOnly_refl [OF assms]])
     (rule corridor_cell_total)

lemma connectRooms_pair_total:
  assumes d: "gridOnly d0 d" and i: "0 \<le> i" "i < int (length (Rooms d)) - 1"
  shows "\<exists>d' w'. connectRooms_pair i (d, w) = Some (d', w') \<and> gridOnly d0 d'"
proof -
  from d have wf: "wellFormed d" by (rule gridOnly_wf)
  from i have ri: "index (Rooms d) i = Some (Rooms d ! nat i)"
    and rj: "index (Rooms d) (i + 1) = Some (Rooms d ! nat (i + 1))"
    by (simp_all add: index_def)
  from Intn_range [of 2 w] obtain r w1 where r: "Intn 2 w = Some (r, w1)" by auto
  let ?ri = "Rooms d ! nat i" and ?rj = "Rooms d ! nat (i + 1)"
  let ?x1 = "Room.X ?ri + quot (Room.Width ?ri) 2" and ?y1 = "Room.Y ?ri + quot (Room.Height ?ri) 2"
  let ?x2 = "Room.X ?rj + quot (Room.Width ?rj) 2" and ?y2 = "Room.Y ?rj + quot (Room.Height ?rj) 2"
  show ?thesis
  proof (cases "r = 0")
    case True
    from createHorizontalCorridor_total [OF wf, of ?x1 ?x2 ?y1] obtain d1
      where d1: "createHorizontalCorridor ?x1 ?x2 ?y1 d = Some d1" "gridOnly d d1" by blast
    from createVerticalCorridor_total [OF gridOnly_wf [OF d1(2)], of ?y1 ?y2 ?x2] obtain d2
      where d2: "createVerticalCorridor ?y1 ?y2 ?x2 d1 = Some d2" "gridOnly d1 d2" by blast
    have "connectRooms_pair i (d, w) = Some (d2, w1)"
      using ri rj r True d1(1) d2(1) by simp
    moreover have "gridOnly d0 d2" using d d1(2) d2(2) by (blast intro: gridOnly_trans)
    ultimately show ?thesis by blast
  next
    case False
    from createVerticalCorridor_total [OF wf, of ?y1 ?y2 ?x1] obtain d1
      where d1: "createVerticalCorridor ?y1 ?y2 ?x1 d = Some d1" "gridOnly d d1" by blast
    from createHorizontalCorridor_total [OF gridOnly_wf [OF d1(2)], of ?x1 ?x2 ?y2] obtain d2
      where d2: "createHorizontalCorridor ?x1 ?x2 ?y2 d1 = Some d2" "gridOnly d1 d2" by blast
    have "connectRooms_pair i (d, w) = Some (d2, w1)"
      using ri rj r False d1(1) d2(1) by simp
    moreover have "gridOnly d0 d2" using d d1(2) d2(2) by (blast intro: gridOnly_trans)
    ultimately show ?thesis by blast
  qed
qed

lemma connectRooms_total:
  assumes wf: "wellFormed d"
  shows "\<exists>d' w'. connectRooms d w = Some (d', w') \<and> gridOnly d d'"
proof (cases "length (Rooms d) \<le> 1")
  case True
  then show ?thesis using wf by (simp add: connectRooms_def gridOnly_refl)
next
  case False
  have "\<exists>s'. forLoop 0 (int (length (Rooms d)) - 1) connectRooms_pair (d, w) = Some s' \<and>
          (\<lambda>(d', w'). gridOnly d d') s'"
  proof (rule forLoop_total)
    show "(\<lambda>(d', w'). gridOnly d d') (d, w)" using wf by (simp add: gridOnly_refl)
  next
    fix i :: int and s :: "Dungeon \<times> world"
    assume i: "0 \<le> i" "i < int (length (Rooms d)) - 1" and "(\<lambda>(d', w'). gridOnly d d') s"
    then obtain e v where s: "s = (e, v)" and e: "gridOnly d e" by (cases s) auto
    from e i have "i < int (length (Rooms e)) - 1" by (simp add: gridOnly_def)
    from connectRooms_pair_total [OF e i(1) this, of v]
    show "\<exists>s'. connectRooms_pair i s = Some s' \<and> (\<lambda>(d', w'). gridOnly d d') s'"
      unfolding s by auto
  qed
  with False show ?thesis by (auto simp: connectRooms_def)
qed

lemma andAlso_Some [simp]: "andAlso (Some a) (Some b) = Some (a \<and> b)"
  by (cases a) (simp_all add: andAlso_def)

lemma orElse_Some [simp]: "orElse (Some a) (Some b) = Some (a \<or> b)"
  by (cases a) (simp_all add: orElse_def)

lemma addDoors_cell_total:
  assumes d: "gridOnly d0 d" and y: "1 \<le> y" "y < Dungeon.Height d - 1"
    and x: "1 \<le> x" "x < Dungeon.Width d - 1"
  shows "\<exists>d' w'. addDoors_cell y x (d, w) = Some (d', w') \<and> gridOnly d0 d'"
proof -
  from d have wf: "wellFormed d" by (rule gridOnly_wf)
  have g: "\<And>a b. 0 \<le> a \<Longrightarrow> a < Dungeon.Width d \<Longrightarrow> 0 \<le> b \<Longrightarrow> b < Dungeon.Height d \<Longrightarrow>
      gridGet d a b = Some (Grid d ! nat b ! nat a)"
    by (rule gridGet_wellFormed [OF wf])
  have c: "gridGet d x y = Some (Grid d ! nat y ! nat x)"
    and u: "isWallAt d x (y - 1) = Some (Grid d ! nat (y - 1) ! nat x = Wall)"
    and l: "isWallAt d x (y + 1) = Some (Grid d ! nat (y + 1) ! nat x = Wall)"
    and a: "isWallAt d (x - 1) y = Some (Grid d ! nat y ! nat (x - 1) = Wall)"
    and b: "isWallAt d (x + 1) y = Some (Grid d ! nat y ! nat (x + 1) = Wall)"
    using x y by (simp_all add: isWallAt_def g)
  have "\<exists>pinch. orElse (andAlso (isWallAt d x (y - 1)) (isWallAt d x (y + 1)))
                       (andAlso (isWallAt d (x - 1) y) (isWallAt d (x + 1) y)) = Some pinch"
    unfolding u l a b by simp
  then obtain pinch where p: "orElse (andAlso (isWallAt d x (y - 1)) (isWallAt d x (y + 1)))
                       (andAlso (isWallAt d (x - 1) y) (isWallAt d (x + 1) y)) = Some pinch" ..
  from Intn_range [of 100 w] obtain r w1 where r: "Intn 100 w = Some (r, w1)" by auto
  have "\<exists>d1. gridSet d x y Door = Some d1 \<and> gridOnly d d1"
    using x y by (intro gridSet_wellFormed [OF wf]) simp_all
  then obtain d1 where d1: "gridSet d x y Door = Some d1" "gridOnly d0 d1"
    using d by (blast intro: gridOnly_trans)
  show ?thesis
    using c p r d1 d by simp
qed

lemma addDoors_total:
  assumes wf: "wellFormed d"
  shows "\<exists>d' w'. addDoors d w = Some (d', w') \<and> gridOnly d d'"
proof -
  let ?I = "\<lambda>(d', w'). gridOnly d d'"
  have "\<exists>s'. forLoop 1 (Dungeon.Height d - 1)
         (\<lambda>y. forLoop 1 (Dungeon.Width d - 1) (\<lambda>x. addDoors_cell y x)) (d, w) = Some s' \<and> ?I s'"
  proof (rule forLoop_total)
    show "?I (d, w)" using wf by (simp add: gridOnly_refl)
  next
    fix y :: int and s :: "Dungeon \<times> world"
    assume y: "1 \<le> y" "y < Dungeon.Height d - 1" and s: "?I s"
    show "\<exists>s'. forLoop 1 (Dungeon.Width d - 1) (\<lambda>x. addDoors_cell y x) s = Some s' \<and> ?I s'"
    proof (rule forLoop_total [where I = "?I", OF s])
      fix x :: int and t :: "Dungeon \<times> world"
      assume x: "1 \<le> x" "x < Dungeon.Width d - 1" and "?I t"
      then obtain e v where t: "t = (e, v)" and e: "gridOnly d e" by (cases t) auto
      from e x y have "y < Dungeon.Height e - 1" "x < Dungeon.Width e - 1"
        by (simp_all add: gridOnly_def)
      from addDoors_cell_total [OF e y(1) this(1) x(1) this(2), of v]
      show "\<exists>t'. addDoors_cell y x t = Some t' \<and> ?I t'" unfolding t by auto
    qed
  qed
  then show ?thesis by (auto simp: addDoors_def)
qed

lemma treasuresAdded_refl: "wellFormed d \<Longrightarrow> treasuresAdded d d []"
  by (simp add: treasuresAdded_def)

lemma addTreasures_room_total:
  assumes inv: "treasuresAdded d0 d new" and room: "roomInBounds d room" "room \<in> set (Rooms d)"
  shows "\<exists>d' w' new'. addTreasures_room room (d, w) = Some (d', w') \<and> treasuresAdded d0 d' new'"
proof -
  from inv have wf: "wellFormed d" by (simp add: treasuresAdded_def)
  from Intn_range [of 100 w] obtain r w1 where r: "Intn 100 w = Some (r, w1)" by auto
  show ?thesis
  proof (cases "r < 40")
    case False
    with r have "addTreasures_room room (d, w) = Some (d, w1)" by simp
    with inv show ?thesis by blast
  next
    case True
    from room have pos: "0 < Room.Width room" "0 < Room.Height room"
      by (simp_all add: roomInBounds_def)
    from Intn_range [OF pos(1), of w1] obtain rx w2
      where rx: "Intn (Room.Width room) w1 = Some (rx, w2)" "0 \<le> rx" "rx < Room.Width room"
      by auto
    from Intn_range [OF pos(2), of w2] obtain ry w3
      where ry: "Intn (Room.Height room) w2 = Some (ry, w3)" "0 \<le> ry" "ry < Room.Height room"
      by auto
    from Intn_range [of 90 w3] obtain v w4
      where v: "Intn 90 w3 = Some (v, w4)" "0 \<le> v" "v < 90" by auto
    let ?x = "Room.X room + rx" and ?y = "Room.Y room + ry"
    have "\<exists>d1. gridSet d ?x ?y Treasure = Some d1 \<and> gridOnly d d1"
      using room(1) rx ry by (intro gridSet_wellFormed [OF wf]) (simp_all add: roomInBounds_def)
    then obtain d1 where d1: "gridSet d ?x ?y Treasure = Some d1" "gridOnly d d1" by blast
    let ?it = "\<lparr>Item.X = ?x, Item.Y = ?y, Type = ItemTreasure, Item.Name = ''Gold'',
                 Description = [], Value = 10 + v, Item.Symbol = 36, Collected = False\<rparr>"
    let ?d' = "d1\<lparr>Items := Items d1 @ [?it]\<rparr>"
    have res: "addTreasures_room room (d, w) = Some (?d', w4)"
      using r True rx(1) ry(1) v(1) d1(1) by simp
    have get: "\<And>a b. gridGet ?d' a b = (if a = ?x \<and> b = ?y then Some Treasure else gridGet d a b)"
      using gridGet_gridSet [OF d1(1)] by (simp add: gridGet_def)
    have rooms: "Rooms ?d' = Rooms d" using d1(2) by (simp add: gridOnly_def)
    have "insideRoom room ?x ?y"
      using rx ry by (simp add: insideRoom_def)
    with room(2) have "list_ex (\<lambda>r. insideRoom r ?x ?y) (Rooms d)"
      unfolding list_ex_iff by blast
    then have "treasureItem ?d' ?it"
      using v by (simp add: treasureItem_def get rooms)
    moreover have "list_all (treasureItem ?d') new"
      using inv by (auto simp: treasuresAdded_def list_all_iff treasureItem_def get rooms)
    moreover have "\<forall>a b. gridGet ?d' a b \<noteq> gridGet d0 a b \<longrightarrow>
        gridGet ?d' a b = Some Treasure \<and> list_ex (\<lambda>it. Item.X it = a \<and> Item.Y it = b) (new @ [?it])"
      using inv by (auto simp: treasuresAdded_def get)
    ultimately have "treasuresAdded d0 ?d' (new @ [?it])"
      using inv d1(2) by (simp add: treasuresAdded_def gridOnly_def)
    with res show ?thesis by blast
  qed
qed

lemma addTreasures_total:
  assumes wf: "wellFormed d" and rooms: "list_all (roomInBounds d) (Rooms d)"
  shows "\<exists>d' w' new. addTreasures d w = Some (d', w') \<and> treasuresAdded d d' new"
proof -
  let ?I = "\<lambda>(d', w'). \<exists>new. treasuresAdded d d' new"
  have "\<exists>s'. forEach (Rooms d) addTreasures_room (d, w) = Some s' \<and> ?I s'"
  proof (rule forEach_total [where I = "?I"])
    show "?I (d, w)" using treasuresAdded_refl [OF wf] by auto
  next
    fix room and s :: "Dungeon \<times> world"
    assume room: "room \<in> set (Rooms d)" and "?I s"
    then obtain e v new where s: "s = (e, v)" and e: "treasuresAdded d e new"
      by (cases s) auto
    from room rooms e have "roomInBounds e room" "room \<in> set (Rooms e)"
      by (simp_all add: list_all_iff roomInBounds_def treasuresAdded_def)
    from addTreasures_room_total [OF e this, of v]
    show "\<exists>s'. addTreasures_room room s = Some s' \<and> ?I s'" unfolding s by auto
  qed
  then show ?thesis by (auto simp: addTreasures_def)
qed

lemma addTraps_attempts_total:
  assumes d: "wellFormed d" and big: "3 \<le> Dungeon.Width d" "3 \<le> Dungeon.Height d"
  shows "\<exists>d' w'. addTraps_attempts attempts (d, w) = Some (d', w') \<and> gridOnly d d'"
proof (induction "nat (50 - attempts)" arbitrary: attempts w)
  case 0
  then have "\<not> attempts < 50" by simp
  then show ?case using d by (subst addTraps_attempts.simps) (simp add: gridOnly_refl)
next
  case (Suc n)
  then have lt: "attempts < 50" by simp
  from big have "0 < Dungeon.Width d - 2" by simp
  from Intn_range [OF this, of w] obtain rx w1
    where rx: "Intn (Dungeon.Width d - 2) w = Some (rx, w1)" "0 \<le> rx" "rx < Dungeon.Width d - 2"
    by auto
  from big have "0 < Dungeon.Height d - 2" by simp
  from Intn_range [OF this, of w1] obtain ry w2
    where ry: "Intn (Dungeon.Height d - 2) w1 = Some (ry, w2)" "0 \<le> ry" "ry < Dungeon.Height d - 2"
    by auto
  have c: "gridGet d (1 + rx) (1 + ry) = Some (Grid d ! nat (1 + ry) ! nat (1 + rx))"
    using rx ry by (intro gridGet_wellFormed [OF d]) simp_all
  show ?case
  proof (cases "Grid d ! nat (1 + ry) ! nat (1 + rx) = Floor")
    case True
    have "\<exists>d1. gridSet d (1 + rx) (1 + ry) Trap = Some d1 \<and> gridOnly d d1"
      using rx ry by (intro gridSet_wellFormed [OF d]) simp_all
    then show ?thesis
      using lt rx(1) ry(1) c True by (subst addTraps_attempts.simps) auto
  next
    case False
    from Suc(2) have "n = nat (50 - (attempts + 1))" by simp
    from Suc(1) [OF this, of w2] show ?thesis
      using lt rx(1) ry(1) c False by (subst addTraps_attempts.simps) simp
  qed
qed

lemma addTraps_total:
  assumes d: "wellFormed d" and big: "3 \<le> Dungeon.Width d" "3 \<le> Dungeon.Height d"
  shows "\<exists>d' w'. addTraps d w = Some (d', w') \<and> gridOnly d d'"
proof -
  from Intn_range [of 4 w] obtain r w1 where r: "Intn 4 w = Some (r, w1)" by auto
  let ?I = "\<lambda>(d', w'). gridOnly d d'"
  have "\<exists>s'. forLoop 0 (2 + r) (\<lambda>i. addTraps_attempts 0) (d, w1) = Some s' \<and> ?I s'"
  proof (rule forLoop_total [where I = "?I"])
    show "?I (d, w1)" using d by (simp add: gridOnly_refl)
  next
    fix i :: int and s :: "Dungeon \<times> world"
    assume "?I s"
    then obtain e v where s: "s = (e, v)" and e: "gridOnly d e" by (cases s) auto
    from e big have "wellFormed e" "3 \<le> Dungeon.Width e" "3 \<le> Dungeon.Height e"
      by (simp_all add: gridOnly_def)
    from addTraps_attempts_total [OF this, of 0 v] e
    show "\<exists>s'. addTraps_attempts 0 s = Some s' \<and> ?I s'"
      unfolding s by (auto intro: gridOnly_trans)
  qed
  with r show ?thesis by (auto simp: addTraps_def)
qed

lemma room_center:
  assumes "roomInBounds d r"
  shows "0 \<le> Room.X r + quot (Room.Width r) 2" "Room.X r + quot (Room.Width r) 2 < Dungeon.Width d"
    "0 \<le> Room.Y r + quot (Room.Height r) 2" "Room.Y r + quot (Room.Height r) 2 < Dungeon.Height d"
proof -
  have half: "\<And>n::int. 0 < n \<Longrightarrow> 0 \<le> quot n 2 \<and> quot n 2 < n"
    by (simp add: quot_nonneg)
  from assms half [of "Room.Width r"] half [of "Room.Height r"]
  show "0 \<le> Room.X r + quot (Room.Width r) 2" "Room.X r + quot (Room.Width r) 2 < Dungeon.Width d"
    "0 \<le> Room.Y r + quot (Room.Height r) 2" "Room.Y r + quot (Room.Height r) 2 < Dungeon.Height d"
    by (simp_all add: roomInBounds_def)
qed

lemma addFeatures_total:
  assumes wf: "wellFormed d" and rooms: "list_all (roomInBounds d) (Rooms d)"
    and big: "3 \<le> Dungeon.Width d" "3 \<le> Dungeon.Height d"
  shows "\<exists>d' w'. addFeatures d w = Some (d', w') \<and> featuresAdded d d'"
proof -
  from addDoors_total [OF wf, of w] obtain d1 w1
    where d1: "addDoors d w = Some (d1, w1)" "gridOnly d d1" by blast
  from d1(2) rooms have r1: "wellFormed d1" "list_all (roomInBounds d1) (Rooms d1)"
    by (simp_all add: gridOnly_def roomInBounds_def list_all_iff)
  from addTreasures_total [OF r1, of w1] obtain d2 w2 new
    where d2: "addTreasures d1 w1 = Some (d2, w2)" "treasuresAdded d1 d2 new" by blast
  from d2(2) d1(2) big
  have r2: "wellFormed d2" "3 \<le> Dungeon.Width d2" "3 \<le> Dungeon.Height d2"
    by (simp_all add: treasuresAdded_def gridOnly_def)
  from addTraps_total [OF r2, of w2] obtain d3 w3
    where d3: "addTraps d2 w2 = Some (d3, w3)" "gridOnly d2 d3" by blast
  have f3: "featuresAdded d d3"
    using d1(2) d2(2) d3(2) by (simp add: featuresAdded_def gridOnly_def treasuresAdded_def)
  show ?thesis
  proof (cases "Rooms d3 = []")
    case True
    then have "addFeatures d w = Some (d3, w3)"
      using d1(1) d2(1) d3(1) by (simp add: addFeatures_def)
    with f3 show ?thesis by simp
  next
    case False
    let ?last = "Rooms d3 ! nat (int (length (Rooms d3)) - 1)"
    from False have idx: "index (Rooms d3) (int (length (Rooms d3)) - 1) = Some ?last"
      by (simp add: index_def)
    from False have "nat (int (length (Rooms d3)) - 1) < length (Rooms d3)"
      by (cases "Rooms d3") simp_all
    then have "?last \<in> set (Rooms d3)" by (rule nth_mem)
    with rooms f3 have "roomInBounds d3 ?last"
      by (simp add: featuresAdded_def list_all_iff roomInBounds_def)
    note c = room_center [OF this]
    have "\<exists>d4. gridSet d3 (Room.X ?last + quot (Room.Width ?last) 2)
                  (Room.Y ?last + quot (Room.Height ?last) 2) StairsDown = Some d4 \<and> gridOnly d3 d4"
      using f3 c by (intro gridSet_wellFormed) (simp_all add: featuresAdded_def)
    then obtain d4 where d4: "gridSet d3 (Room.X ?last + quot (Room.Width ?last) 2)
                  (Room.Y ?last + quot (Room.Height ?last) 2) StairsDown = Some d4"
      "gridOnly d3 d4" by blast
    have "addFeatures d w = Some (d4, w3)"
      using d1(1) d2(1) d3(1) False idx d4(1) by (simp add: addFeatures_def)
    moreover have "featuresAdded d d4"
      using f3 d4(2) by (simp add: featuresAdded_def gridOnly_def)
    ultimately show ?thesis by simp
  qed
qed

lemma spawnedInRooms_Enemies_update [simp]:
  "spawnedInRooms (d\<lparr>Enemies := es\<rparr>) = spawnedInRooms d"
  by (rule ext) (simp add: spawnedInRooms_def)

lemma newEnemy_fromTable: "t \<in> set table \<Longrightarrow> fromTable table (newEnemy x y t)"
  by (cases t) (simp add: fromTable_def newEnemy_def)

lemma newEnemy_pos [simp]: "Enemy.X (newEnemy x y t) = x" "Enemy.Y (newEnemy x y t) = y"
  by (cases t, simp add: newEnemy_def)+

lemma spawnEnemies_loop_total:
  assumes "list_all (\<lambda>r. 0 < Room.Width r \<and> 0 < Room.Height r) (Rooms d)"
  shows "\<exists>new w'. spawnEnemies_loop i n (d, w) = Some (d\<lparr>Enemies := Enemies d @ new\<rparr>, w') \<and>
           list_all (spawnedInRooms d) new"
  using assms
proof (induction "nat (n - i)" arbitrary: i d w)
  case 0
  then have "\<not> i < n" by simp
  then have "spawnEnemies_loop i n (d, w) = Some (d\<lparr>Enemies := Enemies d @ []\<rparr>, w)"
    by (subst spawnEnemies_loop.simps) simp
  then show ?case by (intro exI [of _ "[]"] exI [of _ w]) simp
next
  case (Suc k)
  then have lt: "i < n" by simp
  show ?case
  proof (cases "length (Rooms d) \<le> 1")
    case True
    with lt have "spawnEnemies_loop i n (d, w) = Some (d\<lparr>Enemies := Enemies d @ []\<rparr>, w)"
      by (subst spawnEnemies_loop.simps) simp
    then show ?thesis by (intro exI [of _ "[]"] exI [of _ w]) simp
  next
    case False
    then have "0 < int (length (Rooms d)) - 1" by simp
    from Intn_range [OF this, of w] obtain ri w1
      where ri: "Intn (int (length (Rooms d)) - 1) w = Some (ri, w1)" "0 \<le> ri"
        "ri < int (length (Rooms d)) - 1" by auto
    let ?room = "Rooms d ! nat (1 + ri)"
    from ri have idx: "index (Rooms d) (1 + ri) = Some ?room"
      by (simp add: index_def)
    from ri have tl: "?room = tl (Rooms d) ! nat ri" "nat ri < length (tl (Rooms d))"
      by (simp_all add: nth_tl nat_add_distrib)
    then have intl: "?room \<in> set (tl (Rooms d))" by simp
    then have "?room \<in> set (Rooms d)" by (rule list.set_sel(2) [rotated]) (use False in auto)
    with Suc.prems have pos: "0 < Room.Width ?room" "0 < Room.Height ?room"
      by (simp_all add: list_all_iff)
    from Intn_range [OF pos(1), of w1] obtain rx w2
      where rx: "Intn (Room.Width ?room) w1 = Some (rx, w2)" "0 \<le> rx" "rx < Room.Width ?room"
      by auto
    from Intn_range [OF pos(2), of w2] obtain ry w3
      where ry: "Intn (Room.Height ?room) w2 = Some (ry, w3)" "0 \<le> ry" "ry < Room.Height ?room"
      by auto
    have "0 < int (length enemyTypes)" by (simp add: enemyTypes_def)
    from Intn_range [OF this, of w3] obtain rt w4
      where rt: "Intn (int (length enemyTypes)) w3 = Some (rt, w4)" "0 \<le> rt"
        "rt < int (length enemyTypes)" by auto
    let ?t = "enemyTypes ! nat rt"
    from rt have it: "index enemyTypes rt = Some ?t" "?t \<in> set enemyTypes"
      by (simp_all add: index_def)
    let ?e = "newEnemy (Room.X ?room + rx) (Room.Y ?room + ry) ?t"
    let ?d1 = "d\<lparr>Enemies := Enemies d @ [?e]\<rparr>"
    have step: "spawnEnemies_loop i n (d, w) = spawnEnemies_loop (i + 1) n (?d1, w4)"
      using lt False ri(1) idx rx(1) ry(1) rt(1) it(1)
      by (subst spawnEnemies_loop.simps) simp
    from Suc(2) have "k = nat (n - (i + 1))" by simp
    from Suc(1) [OF this, of ?d1 w4] Suc.prems obtain new w'
      where rec: "spawnEnemies_loop (i + 1) n (?d1, w4) = Some (?d1\<lparr>Enemies := Enemies ?d1 @ new\<rparr>, w')"
        "list_all (spawnedInRooms ?d1) new" by auto
    have "insideRoom ?room (Room.X ?room + rx) (Room.Y ?room + ry)"
      using rx ry by (simp add: insideRoom_def)
    with intl have "spawnedInRooms d ?e"
      using newEnemy_fromTable [OF it(2)] unfolding spawnedInRooms_def list_ex_iff by auto
    moreover from rec(2) have "list_all (spawnedInRooms d) new"
      by simp
    ultimately have "list_all (spawnedInRooms d) (?e # new)" by simp
    moreover have "spawnEnemies_loop i n (d, w) = Some (d\<lparr>Enemies := Enemies d @ (?e # new)\<rparr>, w')"
      using step rec(1) by simp
    ultimately show ?thesis by blast
  qed
qed

lemma spawnEnemies_total:
  assumes "list_all (\<lambda>r. 0 < Room.Width r \<and> 0 < Room.Height r) (Rooms d)" and "minE \<le> maxE"
  shows "\<exists>new w'. spawnEnemies minE maxE d w = Some (d\<lparr>Enemies := Enemies d @ new\<rparr>, w') \<and>
           list_all (spawnedInRooms d) new"
proof -
  from assms(2) have "0 < maxE - minE + 1" by simp
  from Intn_range [OF this, of w] obtain r w1
    where r: "Intn (maxE - minE + 1) w = Some (r, w1)" by auto
  from spawnEnemies_loop_total [OF assms(1), of 0 "minE + r" w1] r
  show ?thesis by (simp add: spawnEnemies_def)
qed

lemma IsWalkable_total: "wellFormed d \<Longrightarrow> \<exists>b. IsWalkable d x y = Some b"
  by (auto simp: IsWalkable_def gridGet_wellFormed)

lemma spawnEnemyNearPlayer_from_total:
  assumes wf: "wellFormed d"
  shows "\<exists>d' w'. spawnEnemyNearPlayer_from ps p d w = Some (d', w') \<and>
           ((d' = d \<and> w' = w) \<or>
            (\<exists>pos t. pos \<in> set ps \<and> t \<in> set enemyTypesNear \<and>
               d' = d\<lparr>Enemies := Enemies d @
                       [newEnemy (Player.X p + fst pos) (Player.Y p + snd pos) t]\<rparr> \<and>
               IsWalkable d (Player.X p + fst pos) (Player.Y p + snd pos) = Some True \<and>
               GetEnemyAt d (Player.X p + fst pos) (Player.Y p + snd pos) = None))"
proof (induction ps)
  case Nil
  show ?case by simp
next
  case (Cons pos rest)
  let ?x = "Player.X p + fst pos" and ?y = "Player.Y p + snd pos"
  from IsWalkable_total [OF wf, of ?x ?y] obtain b where b: "IsWalkable d ?x ?y = Some b" ..
  show ?case
  proof (cases "b \<and> GetEnemyAt d ?x ?y = None")
    case False
    then have eq: "spawnEnemyNearPlayer_from (pos # rest) p d w = spawnEnemyNearPlayer_from rest p d w"
      using b by (auto simp: Let_def)
    from Cons.IH obtain d' w' where r: "spawnEnemyNearPlayer_from rest p d w = Some (d', w')"
      and alt: "(d' = d \<and> w' = w) \<or>
            (\<exists>q t. q \<in> set rest \<and> t \<in> set enemyTypesNear \<and>
               d' = d\<lparr>Enemies := Enemies d @
                       [newEnemy (Player.X p + fst q) (Player.Y p + snd q) t]\<rparr> \<and>
               IsWalkable d (Player.X p + fst q) (Player.Y p + snd q) = Some True \<and>
               GetEnemyAt d (Player.X p + fst q) (Player.Y p + snd q) = None)"
      by blast
    from alt have "(d' = d \<and> w' = w) \<or>
            (\<exists>q t. q \<in> set (pos # rest) \<and> t \<in> set enemyTypesNear \<and>
               d' = d\<lparr>Enemies := Enemies d @
                       [newEnemy (Player.X p + fst q) (Player.Y p + snd q) t]\<rparr> \<and>
               IsWalkable d (Player.X p + fst q) (Player.Y p + snd q) = Some True \<and>
               GetEnemyAt d (Player.X p + fst q) (Player.Y p + snd q) = None)"
      by (metis list.set_intros(2))
    with r show ?thesis unfolding eq by blast
  next
    case True
    have "0 < int (length enemyTypesNear)" by (simp add: enemyTypesNear_def)
    from Intn_range [OF this, of w] obtain rt w1
      where rt: "Intn (int (length enemyTypesNear)) w = Some (rt, w1)" "0 \<le> rt"
        "rt < int (length enemyTypesNear)" by auto
    let ?t = "enemyTypesNear ! nat rt"
    from rt have it: "index enemyTypesNear rt = Some ?t" "?t \<in> set enemyTypesNear"
      by (simp_all add: index_def)
    have "spawnEnemyNearPlayer_from (pos # rest) p d w =
            Some (d\<lparr>Enemies := Enemies d @ [newEnemy ?x ?y ?t]\<rparr>,
                  Print (Printf ''A %s appears!\<newline>'' [S (Enemy.Name (newEnemy ?x ?y ?t))]) w1)"
      using b True rt(1) it(1) by (simp add: Let_def)
    moreover have "pos \<in> set (pos # rest)" by simp
    moreover from True b have "IsWalkable d ?x ?y = Some True" "GetEnemyAt d ?x ?y = None"
      by simp_all
    ultimately show ?thesis using it(2) by blast
  qed
qed

lemma wellFormed_fresh:
  "0 \<le> w \<Longrightarrow> 0 \<le> h \<Longrightarrow>
   wellFormed \<lparr>Dungeon.Width = w, Dungeon.Height = h,
                Grid = replicate (nat h) (replicate (nat w) Wall),
                Rooms = [], Enemies = [], Items = [], Dungeon.Level = 1\<rparr>"
  by (simp add: wellFormed_def list_all_iff)

lemma NewDungeon_total:
  assumes big: "13 \<le> w" "13 \<le> h"
  shows "\<exists>d wd'. NewDungeon w h wd = Some (d, wd') \<and> wellFormed d \<and>
           Dungeon.Width d = w \<and> Dungeon.Height d = h \<and> Dungeon.Level d = 1 \<and>
           Rooms d \<noteq> [] \<and> noOverlap (Rooms d) \<and> list_all (roomInBounds d) (Rooms d)"
proof -
  let ?d0 = "\<lparr>Dungeon.Width = w, Dungeon.Height = h,
                Grid = replicate (nat h) (replicate (nat w) Wall),
                Rooms = [], Enemies = [], Items = [], Dungeon.Level = 1\<rparr>"
  have wf0: "wellFormed ?d0" using big by (intro wellFormed_fresh) simp_all
  have "\<exists>d1 w1. generateRooms 4 8 ?d0 wd = Some (d1, w1) \<and>
           Rooms d1 \<noteq> [] \<and> roomsValid d1 \<and> sameButRoomsGrid ?d0 d1"
    using big by (intro generateRooms_total [OF wf0]) simp_all
  then obtain d1 w1 where d1: "generateRooms 4 8 ?d0 wd = Some (d1, w1)"
    "Rooms d1 \<noteq> []" "roomsValid d1" "sameButRoomsGrid ?d0 d1" by blast
  from d1(3) have wf1: "wellFormed d1" by (simp add: roomsValid_def)
  from connectRooms_total [OF wf1, of w1] obtain d2 w2
    where d2: "connectRooms d1 w1 = Some (d2, w2)" "gridOnly d1 d2" by blast
  have r2: "wellFormed d2" "list_all (roomInBounds d2) (Rooms d2)"
    "3 \<le> Dungeon.Width d2" "3 \<le> Dungeon.Height d2"
    using d1(3,4) d2(2) big
    by (simp_all add: gridOnly_def roomsValid_def sameButRoomsGrid_def roomInBounds_def list_all_iff)
  from addFeatures_total [OF r2, of w2] obtain d3 w3
    where d3: "addFeatures d2 w2 = Some (d3, w3)" "featuresAdded d2 d3" by blast
  have r3: "list_all (\<lambda>r. 0 < Room.Width r \<and> 0 < Room.Height r) (Rooms d3)"
    using r2(2) d3(2) by (simp add: featuresAdded_def roomInBounds_def list_all_iff)
  from spawnEnemies_total [OF r3, of 3 6 w3] obtain new w4
    where d4: "spawnEnemies 3 6 d3 w3 = Some (d3\<lparr>Enemies := Enemies d3 @ new\<rparr>, w4)" by auto
  have res: "NewDungeon w h wd = Some (d3\<lparr>Enemies := Enemies d3 @ new\<rparr>, w4)"
    using big d1(1) d2(1) d3(1) d4 by (simp add: NewDungeon_def)
  have same: "Dungeon.Width d3 = w" "Dungeon.Height d3 = h" "Dungeon.Level d3 = 1"
    "Rooms d3 = Rooms d1" "wellFormed d3"
    using d1(4) d2(2) d3(2) by (simp_all add: sameButRoomsGrid_def gridOnly_def featuresAdded_def)
  have "list_all (roomInBounds (d3\<lparr>Enemies := Enemies d3 @ new\<rparr>)) (Rooms d1)"
    using d1(3,4) same by (simp add: roomsValid_def roomInBounds_def list_all_iff sameButRoomsGrid_def)
  with res same d1(2,3) show ?thesis by (simp add: roomsValid_def)
qed

section \<open>The generators against the tape\<close>

lemma Intn_Some_draw:
  assumes "Intn n w = Some (r, w1)"
  shows "r = fst (draw n (rand w))" and "w1 = w\<lparr>rand := snd (draw n (rand w))\<rparr>"
  using assms by (auto simp: Intn_def draw_def split: if_splits list.splits)

lemma gridSet_Items: "gridSet d x y v = Some d' \<Longrightarrow> Items d' = Items d"
  by (auto simp: gridSet_def split: bind_splits)

lemma addTreasures_room_draws:
  assumes "addTreasures_room room (d, w) = Some (d', w')"
  shows "Items d' = Items d @ fst (addTreasures_spec [room] (rand w)) \<and>
         w' = w\<lparr>rand := snd (addTreasures_spec [room] (rand w))\<rparr>"
proof -
  from assms obtain r w1 where r: "Intn 100 w = Some (r, w1)"
    by (auto split: bind_splits)
  note r' = Intn_Some_draw [OF r]
  show ?thesis
  proof (cases "r < 40")
    case False
    with assms r r' show ?thesis by (simp add: split_beta)
  next
    case True
    from assms r True obtain rx w2 ry w3 d1 v w4
      where rx: "Intn (Room.Width room) w1 = Some (rx, w2)"
        and ry: "Intn (Room.Height room) w2 = Some (ry, w3)"
        and d1: "gridSet d (Room.X room + rx) (Room.Y room + ry) Treasure = Some d1"
        and v: "Intn 90 w3 = Some (v, w4)"
        and res: "d' = d1\<lparr>Items := Items d1 @
               [\<lparr>Item.X = Room.X room + rx, Item.Y = Room.Y room + ry, Type = ItemTreasure,
                 Item.Name = ''Gold'', Description = [], Value = 10 + v, Item.Symbol = 36,
                 Collected = False\<rparr>]\<rparr>" "w' = w4"
      by (auto simp: Let_def split: bind_splits)
    note rx' = Intn_Some_draw [OF rx] and ry' = Intn_Some_draw [OF ry]
      and v' = Intn_Some_draw [OF v]
    show ?thesis
      using True r' rx' ry' v' res gridSet_Items [OF d1]
      by (simp add: split_beta)
  qed
qed

lemma addTreasures_spec_Cons:
  "addTreasures_spec (room # rooms) t =
     (fst (addTreasures_spec [room] t) @
        fst (addTreasures_spec rooms (snd (addTreasures_spec [room] t))),
      snd (addTreasures_spec rooms (snd (addTreasures_spec [room] t))))"
  by (simp add: split_beta Let_def)

lemma forEach_addTreasures_draws:
  assumes "forEach rooms addTreasures_room (d, w) = Some (d', w')"
  shows "Items d' = Items d @ fst (addTreasures_spec rooms (rand w)) \<and>
         w' = w\<lparr>rand := snd (addTreasures_spec rooms (rand w))\<rparr>"
  using assms
proof (induction rooms arbitrary: d w)
  case Nil
  then show ?case by simp
next
  case (Cons room rooms)
  from Cons.prems obtain d1 w1
    where one: "addTreasures_room room (d, w) = Some (d1, w1)"
      and rest: "forEach rooms addTreasures_room (d1, w1) = Some (d', w')"
    by (auto split: option.splits)
  note a = addTreasures_room_draws [OF one] and b = Cons.IH [OF rest]
  have "rand w1 = snd (addTreasures_spec [room] (rand w))" using a by simp
  with a b show ?case
    by (simp only: addTreasures_spec_Cons [of room rooms "rand w"] fst_conv snd_conv) simp
qed

lemma draw_range: "0 < n \<Longrightarrow> 0 \<le> fst (draw n t) \<and> fst (draw n t) < n"
  by (simp add: draw_def split: list.splits)

lemma treasure_chance:
  "card {a. a < 100 \<and> fst (addTreasures_spec [room] (a # t)) \<noteq> []} = 40"
proof -
  have "{a. a < 100 \<and> fst (addTreasures_spec [room] (a # t)) \<noteq> []} = {..<40}"
    by (auto simp: draw_def split_beta Let_def)
  then show ?thesis by simp
qed

lemma treasure_draws:
  assumes "a < 40" and "int b < Room.Width room" and "int c < Room.Height room" and "v < 90"
  shows "addTreasures_spec [room] (a # b # c # v # t) =
           ([\<lparr>Item.X = Room.X room + int b, Item.Y = Room.Y room + int c, Type = ItemTreasure,
              Item.Name = ''Gold'', Description = [], Value = 10 + int v, Item.Symbol = 36,
              Collected = False\<rparr>], t)"
  using assms by (simp add: draw_def)

lemma index_Some_nth: "index xs i = Some x \<Longrightarrow> x = xs ! nat i"
  by (auto simp: index_def split: if_splits)

lemma spawnEnemies_loop_draws:
  assumes "spawnEnemies_loop i n (d, w) = Some (d', w')" and "1 < length (Rooms d)"
  shows "d' = d\<lparr>Enemies := Enemies d @
                 fst (spawn_spec enemyTypes (nat (n - i)) (Rooms d) (rand w))\<rparr> \<and>
         w' = w\<lparr>rand := snd (spawn_spec enemyTypes (nat (n - i)) (Rooms d) (rand w))\<rparr>"
  using assms
proof (induction "nat (n - i)" arbitrary: i d w)
  case 0
  then have "\<not> i < n" by simp
  with "0.prems"(1) have "d' = d" "w' = w"
    by (subst (asm) spawnEnemies_loop.simps, simp)+
  with 0(1) [symmetric] show ?case by simp
next
  case (Suc k)
  then have lt: "i < n" by simp
  from Suc.prems lt obtain ri w1 room rx w2 ry w3 rt w4 et
    where ri: "Intn (int (length (Rooms d)) - 1) w = Some (ri, w1)"
      and room: "index (Rooms d) (1 + ri) = Some room"
      and rx: "Intn (Room.Width room) w1 = Some (rx, w2)"
      and ry: "Intn (Room.Height room) w2 = Some (ry, w3)"
      and rt: "Intn (int (length enemyTypes)) w3 = Some (rt, w4)"
      and et: "index enemyTypes rt = Some et"
      and rest: "spawnEnemies_loop (i + 1) n
                   (d\<lparr>Enemies := Enemies d @
                        [newEnemy (Room.X room + rx) (Room.Y room + ry) et]\<rparr>, w4)
                 = Some (d', w')"
    by (subst (asm) spawnEnemies_loop.simps) (auto simp: Let_def split: bind_splits)
  note ri' = Intn_Some_draw [OF ri] and rx' = Intn_Some_draw [OF rx]
    and ry' = Intn_Some_draw [OF ry] and rt' = Intn_Some_draw [OF rt]
    and room' = index_Some_nth [OF room] and et' = index_Some_nth [OF et]
  let ?d1 = "d\<lparr>Enemies := Enemies d @ [newEnemy (Room.X room + rx) (Room.Y room + ry) et]\<rparr>"
  from Suc(2) have k: "k = nat (n - (i + 1))" and sk: "nat (n - i) = Suc k" by simp_all
  from Suc.prems(2) have "1 < length (Rooms ?d1)" by simp
  note IH = Suc(1) [OF k rest this]
  show ?case
    unfolding sk using IH ri' rx' ry' rt' room' et' k
    by (simp add: split_beta Let_def)
qed

lemma spawnEnemies_loop_one_room:
  "length (Rooms d) \<le> 1 \<Longrightarrow> spawnEnemies_loop i n (d, w) = Some (d, w)"
  by (subst spawnEnemies_loop.simps) simp

lemma Dungeon_Enemies_append_eq:
  "d\<lparr>Enemies := Enemies d @ a\<rparr> = d\<lparr>Enemies := Enemies d @ b\<rparr> \<Longrightarrow> a = b"
proof -
  assume "d\<lparr>Enemies := Enemies d @ a\<rparr> = d\<lparr>Enemies := Enemies d @ b\<rparr>"
  then have "Enemies (d\<lparr>Enemies := Enemies d @ a\<rparr>) = Enemies (d\<lparr>Enemies := Enemies d @ b\<rparr>)"
    by simp
  then show ?thesis by simp
qed

lemma spawnEnemies_exact:
  assumes sizes: "list_all (\<lambda>r. 0 < Room.Width r \<and> 0 < Room.Height r) (Rooms d)"
    and cnt: "minE \<le> maxE"
  shows "spawnEnemies minE maxE d w =
           Some (d\<lparr>Enemies := Enemies d @
                    fst (spawnEnemies_spec minE maxE (Rooms d) (rand w))\<rparr>,
                 w\<lparr>rand := snd (spawnEnemies_spec minE maxE (Rooms d) (rand w))\<rparr>)"
    and "list_all (spawnedInRooms d) (fst (spawnEnemies_spec minE maxE (Rooms d) (rand w)))"
proof -
  from cnt have "0 < maxE - minE + 1" by simp
  from Intn_range [OF this, of w] obtain c w1
    where c: "Intn (maxE - minE + 1) w = Some (c, w1)" by auto
  note c' = Intn_Some_draw [OF c]
  from spawnEnemies_total [OF sizes cnt, of w] obtain new w'
    where run: "spawnEnemies minE maxE d w = Some (d\<lparr>Enemies := Enemies d @ new\<rparr>, w')"
      and new: "list_all (spawnedInRooms d) new" by blast
  from run c have loop: "spawnEnemies_loop 0 (minE + c) (d, w1)
      = Some (d\<lparr>Enemies := Enemies d @ new\<rparr>, w')"
    by (simp add: spawnEnemies_def)
  have "d\<lparr>Enemies := Enemies d @ new\<rparr>
          = d\<lparr>Enemies := Enemies d @ fst (spawnEnemies_spec minE maxE (Rooms d) (rand w))\<rparr> \<and>
        w' = w\<lparr>rand := snd (spawnEnemies_spec minE maxE (Rooms d) (rand w))\<rparr>"
  proof (cases "length (Rooms d) \<le> 1")
    case True
    from loop spawnEnemies_loop_one_room [OF True, of 0 "minE + c" w1]
    have "d\<lparr>Enemies := Enemies d @ new\<rparr> = d" "w' = w1" by simp_all
    with True c' show ?thesis by (simp add: spawnEnemies_spec_def split_beta)
  next
    case False
    then have "1 < length (Rooms d)" by simp
    from spawnEnemies_loop_draws [OF loop this] False c'
    show ?thesis by (simp add: spawnEnemies_spec_def split_beta enemyTypes_def)
  qed
  then have eq: "new = fst (spawnEnemies_spec minE maxE (Rooms d) (rand w))"
    and w': "w' = w\<lparr>rand := snd (spawnEnemies_spec minE maxE (Rooms d) (rand w))\<rparr>"
    using Dungeon_Enemies_append_eq by blast+
  from run show "spawnEnemies minE maxE d w =
           Some (d\<lparr>Enemies := Enemies d @
                    fst (spawnEnemies_spec minE maxE (Rooms d) (rand w))\<rparr>,
                 w\<lparr>rand := snd (spawnEnemies_spec minE maxE (Rooms d) (rand w))\<rparr>)"
    unfolding eq w' .
  from new show "list_all (spawnedInRooms d) (fst (spawnEnemies_spec minE maxE (Rooms d) (rand w)))"
    unfolding eq .
qed

lemma spawn_each_type_once:
  assumes "1 < length rooms"
  shows "map (\<lambda>ti. map enemyType
               (fst (spawn_spec
                  [(''Goblin'', 103, 3, 1), (''Orc'', 111, 5, 2), (''Troll'', 84, 8, 3),
                   (''Rat'', 114, 1, 1), (''Skeleton'', 115, 4, 2)]
                  1 rooms (ri # dx # dy # ti # t))))
           [0, 1, 2, 3, 4]
         = [[(''Goblin'', 103, 3, 1)], [(''Orc'', 111, 5, 2)], [(''Troll'', 84, 8, 3)],
            [(''Rat'', 114, 1, 1)], [(''Skeleton'', 115, 4, 2)]]"
  by (simp add: draw_def enemyType_def newEnemy_def Let_def)

lemma spawnEnemyNearPlayer_from_exact:
  assumes wf: "wellFormed d"
  shows "spawnEnemyNearPlayer_from ps p d w =
           (case find (freeCell p d) ps of
              None \<Rightarrow> Some (d, w)
            | Some pos \<Rightarrow>
                Some (d\<lparr>Enemies := Enemies d @
                        [newEnemy (Player.X p + fst pos) (Player.Y p + snd pos)
                           (enemyTypesNear ! nat (fst (draw 2 (rand w))))]\<rparr>,
                      Print (Printf ''A %s appears!\<newline>''
                               [S (Enemy.Name (newEnemy (Player.X p + fst pos) (Player.Y p + snd pos)
                                     (enemyTypesNear ! nat (fst (draw 2 (rand w))))))])
                        (w\<lparr>rand := snd (draw 2 (rand w))\<rparr>)))"
proof (induction ps)
  case Nil
  show ?case by simp
next
  case (Cons pos rest)
  let ?x = "Player.X p + fst pos" and ?y = "Player.Y p + snd pos"
  from IsWalkable_total [OF wf, of ?x ?y] obtain b where b: "IsWalkable d ?x ?y = Some b" ..
  show ?case
  proof (cases "freeCell p d pos")
    case False
    with b have "\<not> (b \<and> GetEnemyAt d ?x ?y = None)" by (auto simp: freeCell_def)
    then have "spawnEnemyNearPlayer_from (pos # rest) p d w = spawnEnemyNearPlayer_from rest p d w"
      using b by (auto simp: Let_def)
    with Cons.IH False show ?thesis by simp
  next
    case True
    with b have bt: "b" "GetEnemyAt d ?x ?y = None" by (simp_all add: freeCell_def)
    from Intn_range [of 2 w] obtain rt w1
      where rt: "Intn 2 w = Some (rt, w1)" "0 \<le> rt" "rt < 2" by auto
    note rt' = Intn_Some_draw [OF rt(1)]
    from rt have it: "index enemyTypesNear rt = Some (enemyTypesNear ! nat rt)"
      by (simp add: index_def enemyTypesNear_def)
    have len: "int (length enemyTypesNear) = 2" by (simp add: enemyTypesNear_def)
    show ?thesis
      using True b bt rt(1) rt' it by (simp add: Let_def len)
  qed
qed

lemma positions_adjacent:
  "pos \<in> set positions \<Longrightarrow> adjacent p (newEnemy (Player.X p + fst pos) (Player.Y p + snd pos) t)"
  by (auto simp: positions_def adjacent_def)

lemma near_spec_member:
  assumes "e \<in> set (fst (spawnEnemyNearPlayer_spec p d t))"
  shows "adjacent p e \<and> fromTable [(''Goblin'', 103, 3, 1), (''Rat'', 114, 1, 1)] e"
proof -
  from assms obtain pos
    where f: "find (freeCell p d) positions = Some pos"
      and e: "e = newEnemy (Player.X p + fst pos) (Player.Y p + snd pos)
                   ([(''Goblin'', 103, 3, 1), (''Rat'', 114, 1, 1)] ! nat (fst (draw 2 t)))"
    by (auto simp: spawnEnemyNearPlayer_spec_def positions_def split_beta split: option.splits)
  from f have "pos \<in> set positions" by (auto simp: find_Some_iff)
  note adj = positions_adjacent [OF this]
  from draw_range [of 2 t] have "nat (fst (draw 2 t)) < 2" by linarith
  then have "[(''Goblin'', 103, 3, 1), (''Rat'', 114, 1, 1)] ! nat (fst (draw 2 t))
        \<in> set [(''Goblin'', 103::int, 3::int, 1::int), (''Rat'', 114, 1, 1)]"
    by (intro nth_mem) simp
  from newEnemy_fromTable [OF this] adj show ?thesis unfolding e by blast
qed

lemma spawnEnemyNearPlayer_exact:
  assumes wf: "wellFormed d"
  shows "spawnEnemyNearPlayer p d w =
           Some (d\<lparr>Enemies := Enemies d @ fst (spawnEnemyNearPlayer_spec p d (rand w))\<rparr>,
                 (case fst (spawnEnemyNearPlayer_spec p d (rand w)) of
                    [] \<Rightarrow> w
                  | e # _ \<Rightarrow> Print (Printf ''A %s appears!\<newline>'' [S (Enemy.Name e)])
                             (w\<lparr>rand := snd (spawnEnemyNearPlayer_spec p d (rand w))\<rparr>)))"
  unfolding spawnEnemyNearPlayer_def spawnEnemyNearPlayer_from_exact [OF wf]
  by (simp add: spawnEnemyNearPlayer_spec_def positions_def enemyTypesNear_def split_beta
      split: option.splits)


section \<open>Descending, treasures and enemy tables\<close>

text \<open>
  C1, as the code has it: \<open>">"\<close> on a \<open>StairsDown\<close> tile always returns, with a freshly
  generated dungeon of 80 by 24 whose \<open>Level\<close> is 2, whatever the level of the dungeon
  left behind: the increment reads the level of the new dungeon, which
  \<open>NewDungeon\<close> has just set to 1. The player is moved to the centre of the first room
  of the new dungeon and is otherwise unchanged.
\<close>

theorem descend_level:
  assumes "GetTileAt d (Player.X p) (Player.Y p) = Some StairsDown"
  shows "\<exists>d' w'. descend p d w =
           Some (p\<lparr>Player.X := Room.X (Rooms d' ! 0) + quot (Room.Width (Rooms d' ! 0)) 2,
                   Player.Y := Room.Y (Rooms d' ! 0) + quot (Room.Height (Rooms d' ! 0)) 2\<rparr>,
                 d', w') \<and>
           Dungeon.Level d' = 2 \<and> Dungeon.Width d' = 80 \<and> Dungeon.Height d' = 24 \<and>
           wellFormed d' \<and> Rooms d' \<noteq> []"
proof -
  from NewDungeon_total [of 80 24 w] obtain d1 w1
    where d1: "NewDungeon 80 24 w = Some (d1, w1)" "wellFormed d1" "Dungeon.Width d1 = 80"
      "Dungeon.Height d1 = 24" "Dungeon.Level d1 = 1" "Rooms d1 \<noteq> []" by auto
  from d1(6) have "index (Rooms d1) 0 = Some (Rooms d1 ! 0)" by (simp add: index_def)
  with assms d1 show ?thesis by (simp add: descend_def)
qed

theorem descend_level_witness:
  "Dungeon.Level level2Dungeon = 2 \<and>
   (\<exists>p' d' w'. descend (NewPlayer 3 3) level2Dungeon world0 = Some (p', d', w') \<and>
      Dungeon.Level d' = 2)"
proof -
  have "GetTileAt level2Dungeon (Player.X (NewPlayer 3 3)) (Player.Y (NewPlayer 3 3))
          = Some StairsDown"
    by code_simp
  from descend_level [OF this, of world0] show ?thesis
    by (auto simp: level2Dungeon_def)
qed

text \<open>
  C3 as stated fails: on a dungeon with two rooms and every draw 0, \<open>addTreasures\<close>
  puts a \<open>Treasure\<close> tile at (1, 1) and registers no item of type \<open>ItemGold\<close>.
\<close>

theorem addTreasures_no_Gold_item:
  "map_option (\<lambda>(d, w). (gridGet d 1 1 = Some Treasure,
                          list_ex (\<lambda>it. Type it = ItemGold) (Items d)))
     (addTreasures twoRoomDungeon world0) = Some (True, False)"
  by code_simp

lemma treasure_cells:
  "bij_betw (\<lambda>(b, c). (Room.X room + int b, Room.Y room + int c))
     ({..<nat (Room.Width room)} \<times> {..<nat (Room.Height room)})
     {(x, y). insideRoom room x y}"
  by (rule bij_betw_byWitness
        [where f' = "\<lambda>(x, y). (nat (x - Room.X room), nat (y - Room.Y room))"])
     (auto simp: insideRoom_def)

lemma treasure_values: "bij_betw (\<lambda>v. 10 + int v) {..<90} {10..99}"
  by (rule bij_betw_byWitness [where f' = "\<lambda>k. nat (k - 10)"]) auto

text \<open>
  C3, as the code has it: on a grid of the declared shape whose rooms lie within it,
  \<open>addTreasures\<close> returns, and what it does is the plan of the specification read off
  the tape. For every room in order it draws below 100 and places a treasure when the
  draw is below 40, which 40 of the 100 values are; a draw below the room's width and one
  below its height give the cell inside the room, and a draw below 90 gives the value
  from 10 to 99: every cell of the room comes from one pair of draws, every value from
  one draw. The items of the plan, of type \<open>ItemTreasure\<close> and named "Gold", are
  appended to the item list, and exactly the cells they lie on are set to \<open>Treasure\<close>.
\<close>

theorem addTreasures_items:
  assumes "wellFormed d" and "list_all (roomInBounds d) (Rooms d)"
  shows "\<exists>d'. addTreasures d w =
             Some (d', w\<lparr>rand := snd (addTreasures_spec (Rooms d) (rand w))\<rparr>) \<and>
           Items d' = Items d @ fst (addTreasures_spec (Rooms d) (rand w)) \<and>
           Rooms d' = Rooms d \<and> Enemies d' = Enemies d \<and>
           (\<forall>x y. gridGet d' x y =
              (if list_ex (\<lambda>it. Item.X it = x \<and> Item.Y it = y)
                    (fst (addTreasures_spec (Rooms d) (rand w)))
               then Some Treasure else gridGet d x y)) \<and>
           (\<forall>it \<in> set (fst (addTreasures_spec (Rooms d) (rand w))).
              Type it = ItemTreasure \<and> Item.Name it = ''Gold'' \<and>
              10 \<le> Value it \<and> Value it \<le> 99 \<and>
              (\<exists>r \<in> set (Rooms d). insideRoom r (Item.X it) (Item.Y it))) \<and>
           (\<forall>room t. card {a. a < 100 \<and> fst (addTreasures_spec [room] (a # t)) \<noteq> []} = 40 \<and>
              (\<forall>a b c v. a < 40 \<and> int b < Room.Width room \<and> int c < Room.Height room \<and> v < 90
                 \<longrightarrow> addTreasures_spec [room] (a # b # c # v # t) =
                   ([\<lparr>Item.X = Room.X room + int b, Item.Y = Room.Y room + int c,
                      Type = ItemTreasure, Item.Name = ''Gold'', Description = [],
                      Value = 10 + int v, Item.Symbol = 36, Collected = False\<rparr>], t)) \<and>
              bij_betw (\<lambda>(b, c). (Room.X room + int b, Room.Y room + int c))
                ({..<nat (Room.Width room)} \<times> {..<nat (Room.Height room)})
                {(x, y). insideRoom room x y} \<and>
              bij_betw (\<lambda>v. 10 + int v) {..<90} {10..99})"
proof -
  let ?plan = "addTreasures_spec (Rooms d) (rand w)"
  from addTreasures_total [OF assms, of w] obtain d' w' new
    where run: "addTreasures d w = Some (d', w')" and added: "treasuresAdded d d' new"
    by blast
  from run have "forEach (Rooms d) addTreasures_room (d, w) = Some (d', w')"
    by (simp add: addTreasures_def)
  note ex = forEach_addTreasures_draws [OF this]
  from added ex have new: "new = fst ?plan" by (simp add: treasuresAdded_def)
  have items: "\<forall>it \<in> set (fst ?plan).
      Type it = ItemTreasure \<and> Item.Name it = ''Gold'' \<and> 10 \<le> Value it \<and> Value it \<le> 99 \<and>
      gridGet d' (Item.X it) (Item.Y it) = Some Treasure \<and>
      (\<exists>r \<in> set (Rooms d). insideRoom r (Item.X it) (Item.Y it))"
    using added unfolding new
    by (auto simp: treasuresAdded_def list_all_iff treasureItem_def list_ex_iff)
  have changed: "\<forall>x y. gridGet d' x y \<noteq> gridGet d x y \<longrightarrow>
      (\<exists>it \<in> set (fst ?plan). Item.X it = x \<and> Item.Y it = y)"
    using added unfolding new by (simp add: treasuresAdded_def list_ex_iff)
  have grid: "\<forall>x y. gridGet d' x y =
              (if list_ex (\<lambda>it. Item.X it = x \<and> Item.Y it = y) (fst ?plan)
               then Some Treasure else gridGet d x y)"
    using items changed unfolding list_ex_iff by metis
  from added have same: "Rooms d' = Rooms d" "Enemies d' = Enemies d"
    by (simp_all add: treasuresAdded_def)
  from run ex have "addTreasures d w = Some (d', w\<lparr>rand := snd ?plan\<rparr>)" by simp
  with ex same grid items treasure_chance treasure_draws treasure_cells treasure_values
  show ?thesis by blast
qed

lemma wellFormed_twoRoomDungeon: "wellFormed twoRoomDungeon"
  by code_simp

lemma rooms_twoRoomDungeon: "list_all (roomInBounds twoRoomDungeon) (Rooms twoRoomDungeon)"
  by code_simp

theorem addTreasures_items_witness:
  "map_option (Items \<circ> fst) (addTreasures twoRoomDungeon world0)
     = Some [\<lparr>Item.X = 1, Item.Y = 1, Type = ItemTreasure, Item.Name = ''Gold'',
               Description = [], Value = 10, Item.Symbol = 36, Collected = False\<rparr>,
             \<lparr>Item.X = 7, Item.Y = 1, Type = ItemTreasure, Item.Name = ''Gold'',
               Description = [], Value = 10, Item.Symbol = 36, Collected = False\<rparr>]"
proof -
  have plan: "fst (addTreasures_spec (Rooms twoRoomDungeon) (rand world0))
     = [\<lparr>Item.X = 1, Item.Y = 1, Type = ItemTreasure, Item.Name = ''Gold'',
               Description = [], Value = 10, Item.Symbol = 36, Collected = False\<rparr>,
             \<lparr>Item.X = 7, Item.Y = 1, Type = ItemTreasure, Item.Name = ''Gold'',
               Description = [], Value = 10, Item.Symbol = 36, Collected = False\<rparr>]"
    by code_simp
  have "Items twoRoomDungeon = []" by (simp add: twoRoomDungeon_def)
  with addTreasures_items [OF wellFormed_twoRoomDungeon rooms_twoRoomDungeon, of world0] plan
  show ?thesis by auto
qed

text \<open>
  C4 as stated fails for the rest-interruption event: over the values 0 to 4 of the
  draw, which select each entry of the table of five once in \<open>spawnEnemies\<close>,
  \<open>spawnEnemyNearPlayer\<close> spawns Goblin, Rat, Goblin, Rat, Goblin: no Orc, Troll or
  Skeleton, and the Goblin three times of five.
\<close>

theorem spawnEnemyNearPlayer_not_five:
  "map (\<lambda>ti. map_option (map enemyType \<circ> Enemies \<circ> fst)
              (spawnEnemyNearPlayer (NewPlayer 2 2) twoRoomDungeon (world0\<lparr>rand := [ti]\<rparr>)))
     [0, 1, 2, 3, 4]
   = [Some [(''Goblin'', 103, 3, 1)], Some [(''Rat'', 114, 1, 1)], Some [(''Goblin'', 103, 3, 1)],
      Some [(''Rat'', 114, 1, 1)], Some [(''Goblin'', 103, 3, 1)]]"
  by code_simp

text \<open>
  C4, as the code has it: \<open>spawnEnemies\<close> returns and appends the enemies of the
  specification's plan: each hostile, in a room other than the first, with the entry of
  the table of five (Goblin, Orc, Troll, Rat, Skeleton) that its draw below 5 selects,
  every entry by one value of the draw. \<open>spawnEnemyNearPlayer\<close> returns too and appends
  the enemy of the rest interruption's plan: none, or a single hostile one on the first
  free cell around the player, with the entry of its own table of two (Goblin, Rat) that
  its draw below 2 selects, and it announces that enemy.
\<close>

theorem spawn_tables:
  assumes "wellFormed d"
    and "list_all (\<lambda>r. 0 < Room.Width r \<and> 0 < Room.Height r) (Rooms d)"
    and "minE \<le> maxE"
  shows "spawnEnemies minE maxE d w =
           Some (d\<lparr>Enemies := Enemies d @
                    fst (spawnEnemies_spec minE maxE (Rooms d) (rand w))\<rparr>,
                 w\<lparr>rand := snd (spawnEnemies_spec minE maxE (Rooms d) (rand w))\<rparr>) \<and>
         (\<forall>e \<in> set (fst (spawnEnemies_spec minE maxE (Rooms d) (rand w))).
            fromTable [(''Goblin'', 103, 3, 1), (''Orc'', 111, 5, 2), (''Troll'', 84, 8, 3),
                       (''Rat'', 114, 1, 1), (''Skeleton'', 115, 4, 2)] e \<and>
            (\<exists>r \<in> set (tl (Rooms d)). insideRoom r (Enemy.X e) (Enemy.Y e))) \<and>
         (\<forall>rooms ri dx dy t. 1 < length rooms \<longrightarrow>
            map (\<lambda>ti. map enemyType
                   (fst (spawn_spec
                      [(''Goblin'', 103, 3, 1), (''Orc'', 111, 5, 2), (''Troll'', 84, 8, 3),
                       (''Rat'', 114, 1, 1), (''Skeleton'', 115, 4, 2)]
                      1 rooms (ri # dx # dy # ti # t))))
              [0, 1, 2, 3, 4]
            = [[(''Goblin'', 103, 3, 1)], [(''Orc'', 111, 5, 2)], [(''Troll'', 84, 8, 3)],
               [(''Rat'', 114, 1, 1)], [(''Skeleton'', 115, 4, 2)]]) \<and>
         spawnEnemyNearPlayer p d w =
           Some (d\<lparr>Enemies := Enemies d @ fst (spawnEnemyNearPlayer_spec p d (rand w))\<rparr>,
                 (case fst (spawnEnemyNearPlayer_spec p d (rand w)) of
                    [] \<Rightarrow> w
                  | e # _ \<Rightarrow> Print (Printf ''A %s appears!\<newline>'' [S (Enemy.Name e)])
                             (w\<lparr>rand := snd (spawnEnemyNearPlayer_spec p d (rand w))\<rparr>))) \<and>
         length (fst (spawnEnemyNearPlayer_spec p d (rand w))) \<le> 1 \<and>
         (\<forall>e \<in> set (fst (spawnEnemyNearPlayer_spec p d (rand w))).
            adjacent p e \<and> fromTable [(''Goblin'', 103, 3, 1), (''Rat'', 114, 1, 1)] e) \<and>
         (\<forall>t. fst (spawnEnemyNearPlayer_spec p d t) \<noteq> [] \<longrightarrow>
            map (\<lambda>ti. map enemyType (fst (spawnEnemyNearPlayer_spec p d (ti # t)))) [0, 1]
            = [[(''Goblin'', 103, 3, 1)], [(''Rat'', 114, 1, 1)]])"
proof -
  note gen = spawnEnemies_exact [OF assms(2,3), of w]
  from gen(2) have members:
    "\<forall>e \<in> set (fst (spawnEnemies_spec minE maxE (Rooms d) (rand w))).
            fromTable [(''Goblin'', 103, 3, 1), (''Orc'', 111, 5, 2), (''Troll'', 84, 8, 3),
                       (''Rat'', 114, 1, 1), (''Skeleton'', 115, 4, 2)] e \<and>
            (\<exists>r \<in> set (tl (Rooms d)). insideRoom r (Enemy.X e) (Enemy.Y e))"
    unfolding list_all_iff spawnedInRooms_def list_ex_iff enemyTypes_def by blast
  have one: "length (fst (spawnEnemyNearPlayer_spec p d (rand w))) \<le> 1"
    by (simp add: spawnEnemyNearPlayer_spec_def split_beta del: find.simps split: option.splits)
  have two: "map (\<lambda>ti. map enemyType (fst (spawnEnemyNearPlayer_spec p d (ti # t)))) [0, 1]
            = [[(''Goblin'', 103, 3, 1)], [(''Rat'', 114, 1, 1)]]"
    if "fst (spawnEnemyNearPlayer_spec p d t) \<noteq> []" for t
  proof -
    from that obtain pos
      where "find (freeCell p d)
               [(-1, -1), (0, -1), (1, -1), (-1, 0), (1, 0), (-1, 1), (0, 1), (1, 1)] = Some pos"
      by (auto simp add: spawnEnemyNearPlayer_spec_def simp del: find.simps split: option.splits)
    then show ?thesis
      by (simp add: spawnEnemyNearPlayer_spec_def split_beta draw_def enemyType_def newEnemy_def
          del: find.simps)
  qed
  from gen(1) members spawn_each_type_once spawnEnemyNearPlayer_exact [OF assms(1), of p w]
    one near_spec_member [of _ p d "rand w"] two
  show ?thesis by blast
qed

lemma sizes_twoRoomDungeon:
  "list_all (\<lambda>r. 0 < Room.Width r \<and> 0 < Room.Height r) (Rooms twoRoomDungeon)"
  by code_simp

theorem spawn_tables_witness:
  "map_option (map enemyType \<circ> Enemies \<circ> fst)
     (spawnEnemies 3 6 twoRoomDungeon (world0\<lparr>rand := [0, 0, 1, 2, 2]\<rparr>))
     = Some [(''Troll'', 84, 8, 3), (''Goblin'', 103, 3, 1), (''Goblin'', 103, 3, 1)]
   \<and> map_option (map enemyType \<circ> Enemies \<circ> fst)
       (spawnEnemyNearPlayer (NewPlayer 2 2) twoRoomDungeon (world0\<lparr>rand := [1]\<rparr>))
     = Some [(''Rat'', 114, 1, 1)]"
proof -
  have le: "(3::int) \<le> 6" by simp
  have a: "map enemyType (fst (spawnEnemies_spec 3 6 (Rooms twoRoomDungeon)
             (rand (world0\<lparr>rand := [0, 0, 1, 2, 2]\<rparr>))))
           = [(''Troll'', 84, 8, 3), (''Goblin'', 103, 3, 1), (''Goblin'', 103, 3, 1)]"
    by code_simp
  have b: "map enemyType (fst (spawnEnemyNearPlayer_spec (NewPlayer 2 2) twoRoomDungeon
             (rand (world0\<lparr>rand := [1]\<rparr>))))
           = [(''Rat'', 114, 1, 1)]"
    by code_simp
  have e: "Enemies twoRoomDungeon = []" by (simp add: twoRoomDungeon_def)
  from spawn_tables [OF wellFormed_twoRoomDungeon sizes_twoRoomDungeon le,
      of "world0\<lparr>rand := [0, 0, 1, 2, 2]\<rparr>" "NewPlayer 2 2"]
  have "map_option (map enemyType \<circ> Enemies \<circ> fst)
     (spawnEnemies 3 6 twoRoomDungeon (world0\<lparr>rand := [0, 0, 1, 2, 2]\<rparr>))
     = Some [(''Troll'', 84, 8, 3), (''Goblin'', 103, 3, 1), (''Goblin'', 103, 3, 1)]"
    using a e by simp
  moreover
  from spawn_tables [OF wellFormed_twoRoomDungeon sizes_twoRoomDungeon le,
      of "world0\<lparr>rand := [1]\<rparr>" "NewPlayer 2 2"]
  have "map_option (map enemyType \<circ> Enemies \<circ> fst)
       (spawnEnemyNearPlayer (NewPlayer 2 2) twoRoomDungeon (world0\<lparr>rand := [1]\<rparr>))
     = Some [(''Rat'', 114, 1, 1)]"
    using b e by simp
  ultimately show ?thesis by blast
qed

section \<open>Arriving on a tile\<close>

















end
